theory Spec2Isabelle
  imports Main "HOL-Library.Sublist"
begin

section \<open>Chunked upload API: the receiver and the two finalize handlers\<close>

text \<open>
  The repository holds three request handlers: the chunk receiver (upload-chunk, the
  source printed after the README in \<^verbatim>\<open>src/unnamed/part_000\<close>), the finalize handler
  \<^verbatim>\<open>src/app/api/finalize-upload/route.ts\<close> and a second finalize handler
  \<^verbatim>\<open>src/unnamed/part_001\<close>. They act on the file system only, so the model is a file
  system passed from call to call.

  What the model fixes:
  \<^item> paths are POSIX paths, kept normalised as the list of their segments from the
    root; there are no symbolic links;
  \<^item> opening the write stream truncates or creates the file. A \<^verbatim>\<open>write\<close> is not awaited
    by the handlers: it queues its chunk on the stream. The awaited \<^verbatim>\<open>finish\<close> event means
    that the whole queue has reached the file. \<^verbatim>\<open>destroy\<close>, which both \<^verbatim>\<open>finally\<close> blocks
    call, drops what is still queued: how many queued chunks reached the file before it
    took effect is not decided by the handler, so the world carries that number; a chunk
    is written whole or not at all;
  \<^item> a failed open is reported by an \<^verbatim>\<open>error\<close> event while the loop first awaits a read.
    The handlers attach their listeners only after the loop, so with at least one
    iteration the report is missed and the awaited promise never settles: the handler
    gives no answer and runs no cleanup. With no iteration the listeners are in place
    and the promise rejects;
  \<^item> \<^verbatim>\<open>mkdir\<close>, \<^verbatim>\<open>readFile\<close>, \<^verbatim>\<open>writeFile\<close> and the open fail exactly when the file
    system's shape makes them fail (a file where a directory is needed, a directory
    where a file is needed); \<^verbatim>\<open>rm\<close> with \<^verbatim>\<open>recursive\<close> and \<^verbatim>\<open>force\<close> cannot fail that
    way, so its failures are injected: the world carries the outcomes of the coming
    \<^verbatim>\<open>rm\<close> calls, and a failing call removes nothing;
  \<^item> \<^verbatim>\<open>totalChunks\<close> is used by the handlers in numeric comparisons only, so a request
    carries the number those comparisons see: an integer, or NaN (what an absent
    field, \<^verbatim>\<open>undefined\<close>, a non-numeric string or an object compare as). Fractions
    and infinities are left out.
\<close>

subsection \<open>The file system\<close>

type_synonym bytes = string
type_synonym path = "string list"

datatype node = Dir | File bytes

type_synonym fs = "path \<Rightarrow> node option"

datatype error = FsError | StreamError | RmFailed | MissingChunk nat

record world =
  files :: fs
  rm_faults :: "bool list"
  flushed_before_destroy :: nat

record config =
  tmpdir :: path
  cwd :: path

fun is_File :: "node option \<Rightarrow> bool" where
  "is_File (Some (File d)) = True"
| "is_File (Some Dir) = False"
| "is_File None = False"

fun is_Dir :: "node option \<Rightarrow> bool" where
  "is_Dir (Some Dir) = True"
| "is_Dir (Some (File d)) = False"
| "is_Dir None = False"

definition existsSync :: "fs \<Rightarrow> path \<Rightarrow> bool" where
  "existsSync fs p = (fs p \<noteq> None)"

text \<open>\<^verbatim>\<open>mkdir(p, { recursive: true })\<close>: every missing ancestor and \<open>p\<close> itself become
  directories; a file on the way is an error and nothing is created.\<close>

definition add_dirs :: "fs \<Rightarrow> path \<Rightarrow> fs" where
  "add_dirs fs p = (\<lambda>q. if prefix q p \<and> fs q = None then Some Dir else fs q)"

definition mkdir_p :: "fs \<Rightarrow> path \<Rightarrow> error + fs" where
  "mkdir_p fs p =
     (if list_ex (\<lambda>q. is_File (fs q)) (prefixes p) then Inl FsError
      else Inr (add_dirs fs p))"

definition readFile :: "fs \<Rightarrow> path \<Rightarrow> error + bytes" where
  "readFile fs p = (case fs p of Some (File d) \<Rightarrow> Inr d | Some Dir \<Rightarrow> Inl FsError | None \<Rightarrow> Inl FsError)"

text \<open>Opening \<open>p\<close> for writing (flag \<^verbatim>\<open>w\<close>) needs the parent to be a directory and \<open>p\<close> not
  to be one.\<close>

definition can_open_w :: "fs \<Rightarrow> path \<Rightarrow> bool" where
  "can_open_w fs p = (p \<noteq> [] \<and> is_Dir (fs (butlast p)) \<and> \<not> is_Dir (fs p))"

definition writeFile :: "fs \<Rightarrow> path \<Rightarrow> bytes \<Rightarrow> error + fs" where
  "writeFile fs p d = (if can_open_w fs p then Inr (fs(p \<mapsto> File d)) else Inl FsError)"

definition remove_tree :: "fs \<Rightarrow> path \<Rightarrow> fs" where
  "remove_tree fs p = (\<lambda>q. if prefix p q then None else fs q)"

text \<open>\<^verbatim>\<open>rm(p, { recursive: true, force: true })\<close>, with the injected outcome of this call.\<close>

definition rm_rf :: "path \<Rightarrow> world \<Rightarrow> (error + unit) \<times> world" where
  "rm_rf p w =
     (case rm_faults w of
        [] \<Rightarrow> (Inr (), w\<lparr>files := remove_tree (files w) p\<rparr>)
      | fault # rest \<Rightarrow>
          if fault then (Inl RmFailed, w\<lparr>rm_faults := rest\<rparr>)
          else (Inr (), w\<lparr>files := remove_tree (files w) p, rm_faults := rest\<rparr>))"

subsection \<open>The write stream\<close>

text \<open>The stream knows its path, whether the open succeeded, and the chunks written to it
  that have not reached the file yet.\<close>

record wstream =
  ws_path :: path
  ws_ok :: bool
  ws_queue :: "bytes list"

definition createWriteStream :: "fs \<Rightarrow> path \<Rightarrow> wstream \<times> fs" where
  "createWriteStream fs p =
     (if can_open_w fs p then (\<lparr>ws_path = p, ws_ok = True, ws_queue = []\<rparr>, fs(p \<mapsto> File []))
      else (\<lparr>ws_path = p, ws_ok = False, ws_queue = []\<rparr>, fs))"

fun file_bytes :: "node option \<Rightarrow> bytes" where
  "file_bytes (Some (File d)) = d"
| "file_bytes (Some Dir) = []"
| "file_bytes None = []"

text \<open>\<^verbatim>\<open>writeStream.write(chunkData)\<close>, not awaited: the chunk joins the queue.\<close>

definition ws_write :: "wstream \<Rightarrow> bytes \<Rightarrow> wstream" where
  "ws_write ws d = ws\<lparr>ws_queue := ws_queue ws @ [d]\<rparr>"

text \<open>The first \<open>k\<close> queued chunks reach the file, in the order they were written.\<close>

definition ws_flush :: "wstream \<Rightarrow> nat \<Rightarrow> fs \<Rightarrow> fs" where
  "ws_flush ws k fs =
     (if ws_ok ws \<and> take k (ws_queue ws) \<noteq> []
      then fs(ws_path ws \<mapsto> File (file_bytes (fs (ws_path ws)) @ concat (take k (ws_queue ws))))
      else fs)"

text \<open>What an awaited promise comes to: it settles (resolved, or rejected with an error), or
  it stays pending for ever.\<close>

datatype 'a awaited = Pending | Settled 'a

text \<open>The promise built around \<^verbatim>\<open>writeStream.end()\<close> with its \<^verbatim>\<open>finish\<close> and \<^verbatim>\<open>error\<close>
  listeners. On an open stream it resolves once the whole queue is in the file. On a
  stream whose open failed it rejects when the listeners were attached before the
  failure was reported, and never settles otherwise.\<close>

definition ws_end :: "wstream \<Rightarrow> bool \<Rightarrow> fs \<Rightarrow> (error + unit) awaited \<times> fs \<times> wstream" where
  "ws_end ws listening fs =
     (if ws_ok ws
      then (Settled (Inr ()), ws_flush ws (length (ws_queue ws)) fs, ws\<lparr>ws_queue := []\<rparr>)
      else if listening then (Settled (Inl StreamError), fs, ws)
      else (Pending, fs, ws))"

text \<open>\<^verbatim>\<open>writeStream.destroy()\<close>: of the chunks still queued, those that reached the file before
  the call took effect stay there, the others are dropped.\<close>

definition ws_destroy :: "wstream \<Rightarrow> world \<Rightarrow> world" where
  "ws_destroy ws w = w\<lparr>files := ws_flush ws (flushed_before_destroy w) (files w)\<rparr>"

subsection \<open>Strings and paths\<close>

text \<open>The character class \<^verbatim>\<open>[a-zA-Z0-9-_]\<close> and the class \<^verbatim>\<open>[0-9]\<close>; the two
  \<^verbatim>\<open>replace(/[^...]/g, '')\<close> calls keep exactly these characters.\<close>

definition id_char :: "char \<Rightarrow> bool" where
  "id_char c = (c \<in> set ''abcdefghijklmnopqrstuvwxyzABCDEFGHIJKLMNOPQRSTUVWXYZ0123456789-_'')"

definition digit_char :: "char \<Rightarrow> bool" where
  "digit_char c = (c \<in> set ''0123456789'')"

definition sanitize_id :: "string \<Rightarrow> string" where
  "sanitize_id u = filter id_char u"

definition sanitize_index :: "string \<Rightarrow> string" where
  "sanitize_index c = filter digit_char c"

text \<open>\<^verbatim>\<open>path.basename\<close>: trailing slashes are dropped, then the last segment is kept.\<close>

definition basename :: "string \<Rightarrow> string" where
  "basename f = rev (takeWhile (\<lambda>c. c \<noteq> CHR ''/'') (dropWhile (\<lambda>c. c = CHR ''/'') (rev f)))"

text \<open>\<^verbatim>\<open>path.join(base, seg)\<close> for a normalised \<open>base\<close> and a segment without a slash (every
  segment the handlers join is one): an empty segment and \<^verbatim>\<open>.\<close> are dropped, \<^verbatim>\<open>..\<close> steps
  up.\<close>

definition join1 :: "path \<Rightarrow> string \<Rightarrow> path" where
  "join1 base seg =
     (if seg = [] \<or> seg = ''.'' then base
      else if seg = ''..'' then butlast base
      else base @ [seg])"

text \<open>The decimal digits of a loop index, as the template \<^verbatim>\<open>chunk_${i}\<close> prints them.\<close>

fun decimal :: "nat \<Rightarrow> string" where
  "decimal n =
     (if n < 10 then [''0123456789'' ! n]
      else decimal (n div 10) @ [''0123456789'' ! (n mod 10)])"

declare decimal.simps [simp del]

subsection \<open>Numbers as the comparisons see them\<close>

datatype jsnum = NaN | Num int

fun js_lt :: "jsnum \<Rightarrow> jsnum \<Rightarrow> bool" where
  "js_lt (Num a) (Num b) = (a < b)"
| "js_lt NaN y = False"
| "js_lt (Num a) NaN = False"

definition js_gt :: "jsnum \<Rightarrow> jsnum \<Rightarrow> bool" where
  "js_gt x y = js_lt y x"

definition MAX_CHUNKS :: jsnum where
  "MAX_CHUNKS = Num 1000"

subsection \<open>Requests and responses\<close>

text \<open>What the caller gets: one of the JSON answers of the handlers, or no answer at all
  when the handler waits on a promise that never settles.\<close>

datatype response =
    Json_success
  | Json_success_path string
  | Json_error string nat
  | No_response

text \<open>A field of the multipart form: absent (\<^verbatim>\<open>null\<close>), a text value, or a file.\<close>

datatype form_value = Absent | Text string | Blob bytes

record chunk_form =
  form_file :: form_value
  form_chunkIndex :: form_value
  form_uploadId :: form_value

fun falsy :: "form_value \<Rightarrow> bool" where
  "falsy Absent = True"
| "falsy (Text s) = (s = [])"
| "falsy (Blob b) = False"

text \<open>The JSON body of finalize: \<open>None\<close> in a string field is any value that is not a
  string.\<close>

record finalize_body =
  uploadId :: "string option"
  fileName :: "string option"
  totalChunks :: jsnum

definition stagingDir :: "config \<Rightarrow> string \<Rightarrow> path" where
  "stagingDir cfg safeUploadId = join1 (join1 (tmpdir cfg) ''uploads'') safeUploadId"

definition uploadsDir :: "config \<Rightarrow> path" where
  "uploadsDir cfg = join1 (join1 (cwd cfg) ''public'') ''uploads''"

definition chunkPath :: "path \<Rightarrow> string \<Rightarrow> path" where
  "chunkPath tempDir idx = join1 tempDir (''chunk_'' @ idx)"

subsection \<open>The chunk receiver (upload-chunk)\<close>

definition upload_chunk_POST :: "config \<Rightarrow> chunk_form option \<Rightarrow> world \<Rightarrow> response \<times> world" where
  "upload_chunk_POST cfg form w =
     (case form of
        None \<Rightarrow> (Json_error ''Upload failed'' 500, w)
      | Some r \<Rightarrow>
          if falsy (form_file r) \<or> falsy (form_chunkIndex r) \<or> falsy (form_uploadId r)
          then (Json_error ''Missing fields'' 400, w)
          else
            (case form_uploadId r of
               Text u \<Rightarrow>
                 if sanitize_id u \<noteq> u then (Json_error ''Invalid uploadId'' 400, w)
                 else
                   (case form_chunkIndex r of
                      Text c \<Rightarrow>
                        if sanitize_index c \<noteq> c then (Json_error ''Invalid chunkIndex'' 400, w)
                        else
                          (case form_file r of
                             Blob buffer \<Rightarrow>
                               (case mkdir_p (files w) (stagingDir cfg (sanitize_id u)) of
                                  Inl e \<Rightarrow> (Json_error ''Upload failed'' 500, w)
                                | Inr fs1 \<Rightarrow>
                                    (case writeFile fs1
                                            (chunkPath (stagingDir cfg (sanitize_id u)) (sanitize_index c))
                                            buffer of
                                       Inl e \<Rightarrow> (Json_error ''Upload failed'' 500, w\<lparr>files := fs1\<rparr>)
                                     | Inr fs2 \<Rightarrow> (Json_success, w\<lparr>files := fs2\<rparr>)))
                           | _ \<Rightarrow> (Json_error ''Upload failed'' 500, w))
                    | _ \<Rightarrow> (Json_error ''Upload failed'' 500, w))
             | _ \<Rightarrow> (Json_error ''Upload failed'' 500, w)))"

text \<open>The scenario of an upload: the receiver called once per pair of a chunk index and
  its payload, in the order of the list, for one session id. The index travels as its
  decimal digits.\<close>

fun receive_chunks :: "config \<Rightarrow> string \<Rightarrow> (nat \<times> bytes) list \<Rightarrow> world \<Rightarrow> response list \<times> world" where
  "receive_chunks cfg u [] w = ([], w)"
| "receive_chunks cfg u ((i, payload) # rest) w =
     (case upload_chunk_POST cfg
             (Some \<lparr>form_file = Blob payload, form_chunkIndex = Text (decimal i),
                    form_uploadId = Text u\<rparr>) w of
        (r, w') \<Rightarrow>
          (case receive_chunks cfg u rest w' of
             (rs, w'') \<Rightarrow> (r # rs, w'')))"

subsection \<open>The assembly loop, shared text of both finalize handlers\<close>

function assemble :: "path \<Rightarrow> wstream \<Rightarrow> jsnum \<Rightarrow> nat \<Rightarrow> fs \<Rightarrow> (error + unit) \<times> wstream" where
  "assemble tempDir ws tc i fs =
     (if js_lt (Num (int i)) tc then
        (if \<not> existsSync fs (chunkPath tempDir (decimal i)) then (Inl (MissingChunk i), ws)
         else
           (case readFile fs (chunkPath tempDir (decimal i)) of
              Inl e \<Rightarrow> (Inl e, ws)
            | Inr chunkData \<Rightarrow> assemble tempDir (ws_write ws chunkData) tc (Suc i) fs))
      else (Inr (), ws))"
  by pat_completeness auto
termination
  by (relation "measure (\<lambda>(tempDir, ws, tc, i, fs). (case tc of NaN \<Rightarrow> 0 | Num k \<Rightarrow> nat k) - i)")
     (auto split: jsnum.splits)

declare assemble.simps [simp del]

text \<open>The inner \<^verbatim>\<open>try\<close> block: the loop, then the wait for the stream to finish. The
  listeners of that wait are in place before a failed open is reported exactly when the
  loop awaited nothing, that is, when it ran no iteration.\<close>

definition try_block ::
  "path \<Rightarrow> wstream \<Rightarrow> jsnum \<Rightarrow> fs \<Rightarrow> (error + unit) awaited \<times> fs \<times> wstream" where
  "try_block tempDir ws tc fs =
     (case assemble tempDir ws tc 0 fs of
        (Inl e, ws') \<Rightarrow> (Settled (Inl e), fs, ws')
      | (Inr u, ws') \<Rightarrow> ws_end ws' (\<not> js_lt (Num 0) tc) fs)"

text \<open>The outer \<^verbatim>\<open>catch\<close> block, the same in both handlers: a second \<^verbatim>\<open>rm\<close> whose own
  failure is swallowed, when \<^verbatim>\<open>tempDir\<close> was already set.\<close>

definition catch_block :: "path option \<Rightarrow> world \<Rightarrow> response \<times> world" where
  "catch_block tempDir w =
     (case tempDir of
        None \<Rightarrow> (Json_error ''Assembly failed'' 500, w)
      | Some d \<Rightarrow> (Json_error ''Assembly failed'' 500, snd (rm_rf d w)))"

text \<open>The first chunk index below \<open>n\<close> that has no chunk file, if there is one.\<close>

definition first_missing_chunk :: "fs \<Rightarrow> path \<Rightarrow> nat \<Rightarrow> nat option" where
  "first_missing_chunk fs tempDir n =
     find (\<lambda>j. \<not> existsSync fs (chunkPath tempDir (decimal j))) [0..<n]"

subsection \<open>finalize-upload/route.ts\<close>

text \<open>The \<^verbatim>\<open>finally\<close> block of route.ts destroys the stream and awaits \<^verbatim>\<open>rm\<close> bare:
  when \<^verbatim>\<open>rm\<close> throws, its error replaces the outcome of the \<^verbatim>\<open>try\<close> block.\<close>

definition finally_route ::
  "path \<Rightarrow> wstream \<Rightarrow> error + unit \<Rightarrow> world \<Rightarrow> (error + unit) \<times> world" where
  "finally_route tempDir ws r w =
     (case rm_rf tempDir (ws_destroy ws w) of
        (Inl e, w') \<Rightarrow> (Inl e, w')
      | (Inr u, w') \<Rightarrow> (r, w'))"

definition finalize_route :: "config \<Rightarrow> finalize_body option \<Rightarrow> world \<Rightarrow> response \<times> world" where
  "finalize_route cfg body w =
     (case body of
        None \<Rightarrow> catch_block None w
      | Some b \<Rightarrow>
          if js_gt (totalChunks b) MAX_CHUNKS \<or> js_lt (totalChunks b) (Num 1)
          then (Json_error ''Invalid totalChunks'' 400, w)
          else
            (case uploadId b of
               None \<Rightarrow> catch_block None w
             | Some u \<Rightarrow>
                 (case fileName b of
                    None \<Rightarrow> catch_block None w
                  | Some f \<Rightarrow>
                      (case mkdir_p (files w) (uploadsDir cfg) of
                         Inl e \<Rightarrow> catch_block (Some (stagingDir cfg (sanitize_id u))) w
                       | Inr fs1 \<Rightarrow>
                           if \<not> existsSync fs1 (stagingDir cfg (sanitize_id u))
                           then (Json_error ''Upload session not found'' 404, w\<lparr>files := fs1\<rparr>)
                           else
                             (case createWriteStream fs1 (join1 (uploadsDir cfg) (basename f)) of
                                (ws, fs2) \<Rightarrow>
                                  (case try_block (stagingDir cfg (sanitize_id u)) ws (totalChunks b) fs2 of
                                     (Pending, fs3, ws3) \<Rightarrow> (No_response, w\<lparr>files := fs3\<rparr>)
                                   | (Settled r, fs3, ws3) \<Rightarrow>
                                       (case finally_route (stagingDir cfg (sanitize_id u)) ws3 r
                                               (w\<lparr>files := fs3\<rparr>) of
                                          (Inl e, w4) \<Rightarrow>
                                            catch_block (Some (stagingDir cfg (sanitize_id u))) w4
                                        | (Inr u', w4) \<Rightarrow>
                                            (Json_success_path (''/uploads/'' @ basename f), w4))))))))"

subsection \<open>The second finalize handler (part_001)\<close>

text \<open>Here the stream is destroyed as well, and the \<^verbatim>\<open>rm\<close> of the \<^verbatim>\<open>finally\<close> block sits in
  a \<^verbatim>\<open>try\<close>/\<^verbatim>\<open>catch\<close> of its own: its failure is logged and the outcome of the \<^verbatim>\<open>try\<close>
  block stands.\<close>

definition finally_part_001 ::
  "path \<Rightarrow> wstream \<Rightarrow> error + unit \<Rightarrow> world \<Rightarrow> (error + unit) \<times> world" where
  "finally_part_001 tempDir ws r w = (r, snd (rm_rf tempDir (ws_destroy ws w)))"

definition finalize_part_001 :: "config \<Rightarrow> finalize_body option \<Rightarrow> world \<Rightarrow> response \<times> world" where
  "finalize_part_001 cfg body w =
     (case body of
        None \<Rightarrow> catch_block None w
      | Some b \<Rightarrow>
          if js_gt (totalChunks b) MAX_CHUNKS \<or> js_lt (totalChunks b) (Num 1)
          then (Json_error ''Invalid totalChunks'' 400, w)
          else
            (case uploadId b of
               None \<Rightarrow> catch_block None w
             | Some u \<Rightarrow>
                 (case fileName b of
                    None \<Rightarrow> catch_block None w
                  | Some f \<Rightarrow>
                      (case mkdir_p (files w) (uploadsDir cfg) of
                         Inl e \<Rightarrow> catch_block (Some (stagingDir cfg (sanitize_id u))) w
                       | Inr fs1 \<Rightarrow>
                           if \<not> existsSync fs1 (stagingDir cfg (sanitize_id u))
                           then (Json_error ''Upload session not found'' 404, w\<lparr>files := fs1\<rparr>)
                           else
                             (case createWriteStream fs1 (join1 (uploadsDir cfg) (basename f)) of
                                (ws, fs2) \<Rightarrow>
                                  (case try_block (stagingDir cfg (sanitize_id u)) ws (totalChunks b) fs2 of
                                     (Pending, fs3, ws3) \<Rightarrow> (No_response, w\<lparr>files := fs3\<rparr>)
                                   | (Settled r, fs3, ws3) \<Rightarrow>
                                       (case finally_part_001 (stagingDir cfg (sanitize_id u)) ws3 r
                                               (w\<lparr>files := fs3\<rparr>) of
                                          (Inl e, w4) \<Rightarrow>
                                            catch_block (Some (stagingDir cfg (sanitize_id u))) w4
                                        | (Inr u', w4) \<Rightarrow>
                                            (Json_success_path (''/uploads/'' @ basename f), w4))))))))"

subsection \<open>A small world for concrete runs\<close>

definition example_cfg :: config where
  "example_cfg = \<lparr>tmpdir = [''tmp''], cwd = [''app'']\<rparr>"

definition example_fs :: fs where
  "example_fs = [[] \<mapsto> Dir, [''tmp''] \<mapsto> Dir, [''app''] \<mapsto> Dir]"

definition example_world :: world where
  "example_world = \<lparr>files = example_fs, rm_faults = [], flushed_before_destroy = 1\<rparr>"

definition example_staged_fs :: fs where
  "example_staged_fs =
     example_fs
       ([''tmp'', ''uploads''] \<mapsto> Dir,
        [''tmp'', ''uploads'', ''abc-1''] \<mapsto> Dir,
        [''tmp'', ''uploads'', ''abc-1'', ''chunk_0''] \<mapsto> File ''AAAA'',
        [''tmp'', ''uploads'', ''abc-1'', ''chunk_1''] \<mapsto> File ''BB'')"

definition example_staged :: world where
  "example_staged = \<lparr>files = example_staged_fs, rm_faults = [], flushed_before_destroy = 1\<rparr>"

definition example_body :: "jsnum \<Rightarrow> finalize_body" where
  "example_body tc = \<lparr>uploadId = Some ''abc-1'', fileName = Some ''out.bin'', totalChunks = tc\<rparr>"

text \<open>The staged world in which the next \<^verbatim>\<open>rm\<close> fails.\<close>

definition example_staged_rm_fails :: world where
  "example_staged_rm_fails =
     \<lparr>files = example_staged_fs, rm_faults = [True], flushed_before_destroy = 1\<rparr>"

text \<open>A form whose chunk index and upload id are text fields.\<close>

definition example_form :: "form_value \<Rightarrow> string \<Rightarrow> string \<Rightarrow> chunk_form" where
  "example_form file idx u = \<lparr>form_file = file, form_chunkIndex = Text idx, form_uploadId = Text u\<rparr>"

text \<open>The traversal scenario: session \<^verbatim>\<open>x\<close> with one chunk, destination name \<^verbatim>\<open>../../etc/passwd\<close>.\<close>

definition example_traversal_world :: world where
  "example_traversal_world =
     \<lparr>files = example_fs
         ([''tmp'', ''uploads''] \<mapsto> Dir,
          [''tmp'', ''uploads'', ''x''] \<mapsto> Dir,
          [''tmp'', ''uploads'', ''x'', ''chunk_0''] \<mapsto> File ''root''),
      rm_faults = [], flushed_before_destroy = 1\<rparr>"

definition example_traversal_body :: finalize_body where
  "example_traversal_body =
     \<lparr>uploadId = Some ''x'', fileName = Some ''../../etc/passwd'', totalChunks = Num 1\<rparr>"

section \<open>Auxiliary facts\<close>

subsection \<open>Paths and identifiers\<close>


lemma id_char_not_dot: "id_char c \<Longrightarrow> c \<noteq> CHR ''.''"
  by (auto simp: id_char_def)

lemma sanitize_id_not_dots: "sanitize_id u \<noteq> ''.''" "sanitize_id u \<noteq> ''..''"
proof -
  have "CHR ''.'' \<notin> set (sanitize_id u)"
    using id_char_not_dot by (auto simp: sanitize_id_def)
  then show "sanitize_id u \<noteq> ''.''" "sanitize_id u \<noteq> ''..''"
    by auto
qed

lemma stagingDir_eq:
  "stagingDir cfg (sanitize_id u) =
     tmpdir cfg @ [''uploads''] @ (if sanitize_id u = [] then [] else [sanitize_id u])"
  using sanitize_id_not_dots [of u] by (simp add: stagingDir_def join1_def)

lemma uploadsDir_eq: "uploadsDir cfg = cwd cfg @ [''public'', ''uploads'']"
  by (simp add: uploadsDir_def join1_def)

lemma chunkPath_eq: "chunkPath d idx = d @ [''chunk_'' @ idx]"
  by (simp add: chunkPath_def join1_def)

lemma sanitize_id_idem: "sanitize_id (sanitize_id u) = sanitize_id u"
  by (simp add: sanitize_id_def)

subsection \<open>The assembly loop\<close>

lemma assemble_run:
  assumes "\<forall>j. i \<le> j \<and> j < m \<longrightarrow> fs (chunkPath tempDir (decimal j)) = Some (File (d j))"
    and "i \<le> m" and "m \<le> n"
    and "m < n \<longrightarrow> fs (chunkPath tempDir (decimal m)) = None"
  shows "assemble tempDir ws (Num (int n)) i fs =
           (if m < n then Inl (MissingChunk m) else Inr (),
            ws\<lparr>ws_queue := ws_queue ws @ map d [i..<m]\<rparr>)"
  using assms
proof (induction "m - i" arbitrary: i ws)
  case 0
  then have im: "i = m" by simp
  show ?case
  proof (cases "m < n")
    case True
    with 0 im show ?thesis
      by (subst assemble.simps) (auto simp: existsSync_def)
  next
    case False
    with 0 im have "m = n" by simp
    with 0 im show ?thesis
      by (subst assemble.simps) auto
  qed
next
  case (Suc k)
  then have lt: "i < m" by simp
  let ?ws = "ws_write ws (d i)"
  have ci: "fs (chunkPath tempDir (decimal i)) = Some (File (d i))"
    using Suc.prems(1) lt by simp
  have step: "assemble tempDir ws (Num (int n)) i fs = assemble tempDir ?ws (Num (int n)) (Suc i) fs"
    using lt Suc.prems(3) ci
    by (subst assemble.simps) (simp add: existsSync_def readFile_def)
  have "assemble tempDir ?ws (Num (int n)) (Suc i) fs =
          (if m < n then Inl (MissingChunk m) else Inr (),
           ?ws\<lparr>ws_queue := ws_queue ?ws @ map d [Suc i..<m]\<rparr>)"
  proof (rule Suc.hyps(1))
    show "k = m - Suc i" using Suc.hyps(2) by simp
    show "\<forall>j. Suc i \<le> j \<and> j < m \<longrightarrow> fs (chunkPath tempDir (decimal j)) = Some (File (d j))"
      using Suc.prems(1) by simp
    show "Suc i \<le> m" using lt by simp
    show "m \<le> n" by fact
    show "m < n \<longrightarrow> fs (chunkPath tempDir (decimal m)) = None" by fact
  qed
  with step lt show ?case
    by (simp add: ws_write_def upt_conv_Cons)
qed

lemma assemble_NaN: "assemble tempDir ws NaN i fs = (Inr (), ws)"
  by (subst assemble.simps) simp

lemma assemble_keeps_stream:
  "ws_path (snd (assemble tempDir ws tc i fs)) = ws_path ws \<and>
   ws_ok (snd (assemble tempDir ws tc i fs)) = ws_ok ws"
proof (induction tempDir ws tc i fs rule: assemble.induct)
  case (1 tempDir ws tc i fs)
  show ?case
  proof (cases "js_lt (Num (int i)) tc \<and> existsSync fs (chunkPath tempDir (decimal i))")
    case False
    then show ?thesis
      by (subst (1 2) assemble.simps) auto
  next
    case True
    show ?thesis
    proof (cases "readFile fs (chunkPath tempDir (decimal i))")
      case (Inl e)
      with True show ?thesis
        by (subst (1 2) assemble.simps) simp
    next
      case (Inr chunkData)
      have "ws_path (snd (assemble tempDir (ws_write ws chunkData) tc (Suc i) fs)) =
              ws_path (ws_write ws chunkData) \<and>
            ws_ok (snd (assemble tempDir (ws_write ws chunkData) tc (Suc i) fs)) =
              ws_ok (ws_write ws chunkData)"
        using True Inr by (intro "1.IH") auto
      then show ?thesis
        using True Inr by (subst (1 2) assemble.simps) (simp add: ws_write_def)
    qed
  qed
qed

lemma ws_flush_empty: "ws_queue ws = [] \<Longrightarrow> ws_flush ws k fs = fs"
  by (simp add: ws_flush_def)

lemma ws_flush_fresh:
  "ws_ok ws \<Longrightarrow> fs (ws_path ws) = Some (File []) \<Longrightarrow>
     ws_flush ws k fs = fs(ws_path ws \<mapsto> File (concat (take k (ws_queue ws))))"
  by (auto simp: ws_flush_def)

lemma ws_flush_frame: "q \<noteq> ws_path ws \<or> \<not> ws_ok ws \<Longrightarrow> ws_flush ws k fs q = fs q"
  by (auto simp: ws_flush_def)

lemma ws_destroy_simps:
  "rm_faults (ws_destroy ws w) = rm_faults w"
  "flushed_before_destroy (ws_destroy ws w) = flushed_before_destroy w"
  "files (ws_destroy ws w) = ws_flush ws (flushed_before_destroy w) (files w)"
  by (simp_all add: ws_destroy_def)

lemma ws_destroy_empty: "ws_queue ws = [] \<Longrightarrow> ws_destroy ws w = w"
  by (simp add: ws_destroy_def ws_flush_empty)

subsection \<open>Directories, deletion and the handlers up to the loop\<close>

lemma mkdir_p_ok:
  "\<not> list_ex (\<lambda>q. is_File (fs q)) (prefixes p) \<Longrightarrow> mkdir_p fs p = Inr (add_dirs fs p)"
  by (simp add: mkdir_p_def)

lemma mkdir_p_Inr: "mkdir_p fs p = Inr fs1 \<Longrightarrow> fs1 = add_dirs fs p"
  by (simp add: mkdir_p_def split: if_splits)

lemma mkdir_p_Inr_no_file:
  "mkdir_p fs p = Inr fs1 \<Longrightarrow> prefix q p \<Longrightarrow> \<not> is_File (fs q)"
  by (auto simp: mkdir_p_def list_ex_iff split: if_splits)

lemma add_dirs_prefix_is_Dir:
  "prefix q p \<Longrightarrow> \<not> is_File (fs q) \<Longrightarrow> add_dirs fs p q = Some Dir"
  by (cases "fs q" rule: is_File.cases) (auto simp: add_dirs_def)

lemma add_dirs_other: "\<not> prefix q p \<Longrightarrow> add_dirs fs p q = fs q"
  by (simp add: add_dirs_def)

lemma add_dirs_Some: "fs q = Some x \<Longrightarrow> add_dirs fs p q = Some x"
  by (simp add: add_dirs_def)

lemma add_dirs_not_None: "fs q \<noteq> None \<Longrightarrow> add_dirs fs p q = fs q"
  by (simp add: add_dirs_def)

lemma finalize_part_001_run:
  assumes "\<not> js_gt (totalChunks b) MAX_CHUNKS" and "\<not> js_lt (totalChunks b) (Num 1)"
    and "uploadId b = Some u" and "fileName b = Some f"
    and "mkdir_p (files w) (uploadsDir cfg) = Inr fs1"
    and "existsSync fs1 (stagingDir cfg (sanitize_id u))"
  shows "finalize_part_001 cfg (Some b) w =
     (case try_block (stagingDir cfg (sanitize_id u))
             (fst (createWriteStream fs1 (join1 (uploadsDir cfg) (basename f))))
             (totalChunks b)
             (snd (createWriteStream fs1 (join1 (uploadsDir cfg) (basename f)))) of
        (Pending, fs3, ws3) \<Rightarrow> (No_response, w\<lparr>files := fs3\<rparr>)
      | (Settled (Inl e), fs3, ws3) \<Rightarrow>
          (Json_error ''Assembly failed'' 500,
           snd (rm_rf (stagingDir cfg (sanitize_id u))
                 (snd (rm_rf (stagingDir cfg (sanitize_id u))
                        (ws_destroy ws3 (w\<lparr>files := fs3\<rparr>))))))
      | (Settled (Inr x), fs3, ws3) \<Rightarrow>
          (Json_success_path (''/uploads/'' @ basename f),
           snd (rm_rf (stagingDir cfg (sanitize_id u)) (ws_destroy ws3 (w\<lparr>files := fs3\<rparr>)))))"
  using assms
  by (simp add: finalize_part_001_def finally_part_001_def catch_block_def
      split: prod.splits sum.splits awaited.splits)

lemma finalize_route_run:
  assumes "\<not> js_gt (totalChunks b) MAX_CHUNKS" and "\<not> js_lt (totalChunks b) (Num 1)"
    and "uploadId b = Some u" and "fileName b = Some f"
    and "mkdir_p (files w) (uploadsDir cfg) = Inr fs1"
    and "existsSync fs1 (stagingDir cfg (sanitize_id u))"
  shows "finalize_route cfg (Some b) w =
     (case try_block (stagingDir cfg (sanitize_id u))
             (fst (createWriteStream fs1 (join1 (uploadsDir cfg) (basename f))))
             (totalChunks b)
             (snd (createWriteStream fs1 (join1 (uploadsDir cfg) (basename f)))) of
        (Pending, fs3, ws3) \<Rightarrow> (No_response, w\<lparr>files := fs3\<rparr>)
      | (Settled (Inl e), fs3, ws3) \<Rightarrow>
          (Json_error ''Assembly failed'' 500,
           snd (rm_rf (stagingDir cfg (sanitize_id u))
                 (snd (rm_rf (stagingDir cfg (sanitize_id u))
                        (ws_destroy ws3 (w\<lparr>files := fs3\<rparr>))))))
      | (Settled (Inr x), fs3, ws3) \<Rightarrow>
          (case rm_rf (stagingDir cfg (sanitize_id u)) (ws_destroy ws3 (w\<lparr>files := fs3\<rparr>)) of
             (Inl e, w4) \<Rightarrow>
               (Json_error ''Assembly failed'' 500, snd (rm_rf (stagingDir cfg (sanitize_id u)) w4))
           | (Inr y, w4) \<Rightarrow> (Json_success_path (''/uploads/'' @ basename f), w4)))"
  using assms
  by (simp add: finalize_route_def finally_route_def catch_block_def
      split: prod.splits sum.splits awaited.splits)

lemma rm_rf_ok:
  "\<not> prefix [True] (rm_faults w) \<Longrightarrow>
     rm_rf d w = (Inr (), w\<lparr>files := remove_tree (files w) d, rm_faults := tl (rm_faults w)\<rparr>)"
  by (cases w) (auto simp: rm_rf_def split: list.splits)

lemma rm_rf_fail:
  "prefix [True] (rm_faults w) \<Longrightarrow> rm_rf d w = (Inl RmFailed, w\<lparr>rm_faults := tl (rm_faults w)\<rparr>)"
  by (auto simp: rm_rf_def split: list.splits)

lemma remove_tree_idem: "remove_tree (remove_tree fs d) d = remove_tree fs d"
  by (auto simp: remove_tree_def)

lemma rm_rf_twice_files:
  "\<not> prefix [True, True] (rm_faults w) \<Longrightarrow>
     files (snd (rm_rf d (snd (rm_rf d w)))) = remove_tree (files w) d"
  by (auto simp: rm_rf_def remove_tree_idem split: list.splits)

lemma rm_rf_twice_faults:
  "rm_faults (snd (rm_rf d (snd (rm_rf d w)))) = drop 2 (rm_faults w)"
  by (auto simp: rm_rf_def split: list.splits)

lemma chunkPath_not_dest:
  "\<not> prefix tempDir fp \<Longrightarrow> chunkPath tempDir idx \<noteq> fp"
  by (metis chunkPath_eq prefixI)

lemma try_block_result:
  assumes "can_open_w fs1 fp"
    and "\<not> prefix tempDir fp"
    and "\<forall>j<m. fs1 (chunkPath tempDir (decimal j)) = Some (File (d j))"
    and "m \<le> n"
    and "m < n \<longrightarrow> fs1 (chunkPath tempDir (decimal m)) = None"
  shows "try_block tempDir (fst (createWriteStream fs1 fp)) (Num (int n))
           (snd (createWriteStream fs1 fp)) =
         (if m < n
          then (Settled (Inl (MissingChunk m)), fs1(fp \<mapsto> File []),
                \<lparr>ws_path = fp, ws_ok = True, ws_queue = map d [0..<m]\<rparr>)
          else (Settled (Inr ()), fs1(fp \<mapsto> File (concat (map d [0..<m]))),
                \<lparr>ws_path = fp, ws_ok = True, ws_queue = []\<rparr>))"
proof -
  let ?ws = "\<lparr>ws_path = fp, ws_ok = True, ws_queue = []\<rparr>"
  let ?fs = "fs1(fp \<mapsto> File [])"
  have cw: "createWriteStream fs1 fp = (?ws, ?fs)"
    using assms(1) by (simp add: createWriteStream_def)
  have run: "assemble tempDir ?ws (Num (int n)) 0 ?fs =
          (if m < n then Inl (MissingChunk m) else Inr (),
           ?ws\<lparr>ws_queue := ws_queue ?ws @ map d [0..<m]\<rparr>)"
  proof (rule assemble_run)
    show "\<forall>j. 0 \<le> j \<and> j < m \<longrightarrow> ?fs (chunkPath tempDir (decimal j)) = Some (File (d j))"
      using assms(2,3) chunkPath_not_dest by simp
    show "m < n \<longrightarrow> ?fs (chunkPath tempDir (decimal m)) = None"
      using assms(2,5) chunkPath_not_dest by simp
  qed (use assms in simp_all)
  have flush: "ws_flush \<lparr>ws_path = fp, ws_ok = True, ws_queue = map d [0..<m]\<rparr> (length (map d [0..<m])) ?fs =
      fs1(fp \<mapsto> File (concat (map d [0..<m])))"
    by (simp add: ws_flush_fresh)
  show ?thesis
    using flush by (simp add: cw try_block_def run ws_end_def)
qed

lemma try_block_NaN:
  assumes "can_open_w fs1 fp"
  shows "try_block tempDir (fst (createWriteStream fs1 fp)) NaN (snd (createWriteStream fs1 fp)) =
         (Settled (Inr ()), fs1(fp \<mapsto> File []), \<lparr>ws_path = fp, ws_ok = True, ws_queue = []\<rparr>)"
  using assms
  by (simp add: createWriteStream_def try_block_def assemble_NaN ws_end_def ws_flush_empty)

text \<open>A path that opens for writing under a root that \<^verbatim>\<open>mkdir\<close> has just made is the root
  followed by one real segment.\<close>

lemma open_under_made_root:
  assumes "mkdir_p fs root = Inr fs1" and "can_open_w fs1 (join1 root seg)"
  shows "join1 root seg = root @ [seg]" and "seg \<noteq> []" and "seg \<noteq> ''.''" and "seg \<noteq> ''..''"
proof -
  have dirs: "fs1 q = Some Dir" if "prefix q root" for q
    using assms(1) that mkdir_p_Inr [OF assms(1)] mkdir_p_Inr_no_file [OF assms(1) that]
    by (simp add: add_dirs_prefix_is_Dir)
  have "fs1 root = Some Dir" by (simp add: dirs)
  moreover have "fs1 (butlast root) = Some Dir" by (simp add: dirs prefixeq_butlast)
  ultimately have "seg \<noteq> [] \<and> seg \<noteq> ''.'' \<and> seg \<noteq> ''..''"
    using assms(2) by (auto simp: join1_def can_open_w_def)
  then show "join1 root seg = root @ [seg]" and "seg \<noteq> []" and "seg \<noteq> ''.''" and "seg \<noteq> ''..''"
    by (simp_all add: join1_def)
qed

lemma find_upt_Some:
  "find P [0..<n] = Some m \<longleftrightarrow> m < n \<and> P m \<and> (\<forall>j<m. \<not> P j)"
  by (auto simp: find_Some_iff)

lemma first_missing_chunk_Some:
  "first_missing_chunk fs tempDir n = Some m \<longleftrightarrow>
     m < n \<and> fs (chunkPath tempDir (decimal m)) = None \<and>
     (\<forall>j<m. fs (chunkPath tempDir (decimal j)) \<noteq> None)"
  by (simp add: first_missing_chunk_def find_upt_Some existsSync_def)


lemmas example_defs = example_cfg_def example_fs_def example_world_def example_staged_fs_def
  example_staged_def example_body_def

lemmas path_defs = stagingDir_def uploadsDir_def chunkPath_def join1_def basename_def
  sanitize_id_def sanitize_index_def id_char_def digit_char_def

lemmas fs_defs = existsSync_def mkdir_p_def add_dirs_def readFile_def can_open_w_def writeFile_def
  remove_tree_def rm_rf_def createWriteStream_def ws_write_def ws_flush_def ws_end_def
  ws_destroy_def

lemmas handler_defs = try_block_def catch_block_def finally_route_def finally_part_001_def
  js_gt_def MAX_CHUNKS_def

lemma decimal_small: "n < 10 \<Longrightarrow> decimal n = [''0123456789'' ! n]"
  by (simp add: decimal.simps)

lemma example_first_missing:
  "first_missing_chunk example_staged_fs [''tmp'', ''uploads'', ''abc-1''] 3 = Some 2"
  by (simp add: first_missing_chunk_def numeral_3_eq_3 example_defs path_defs existsSync_def
      decimal_small)

subsection \<open>Where the two handlers agree, and when the range check rejects\<close>

lemma finalize_route_eq_part_001:
  "\<not> prefix [True] (rm_faults w) \<Longrightarrow> finalize_route cfg body w = finalize_part_001 cfg body w"
  by (simp add: finalize_route_def finalize_part_001_def finally_route_def finally_part_001_def
      rm_rf_ok ws_destroy_simps split: option.splits sum.splits prod.splits awaited.splits)

lemma invalid_totalChunks_iff:
  assumes "handler = finalize_route \<or> handler = finalize_part_001"
  shows "fst (handler cfg (Some b) w) = Json_error ''Invalid totalChunks'' 400 \<longleftrightarrow>
           (\<exists>k. totalChunks b = Num k \<and> (1000 < k \<or> k < 1))"
proof (cases "totalChunks b")
  case NaN
  with assms show ?thesis
    by (auto simp: finalize_route_def finalize_part_001_def catch_block_def js_gt_def
        MAX_CHUNKS_def split: option.splits sum.splits prod.splits if_splits awaited.splits)
next
  case (Num k)
  with assms show ?thesis
    by (auto simp: finalize_route_def finalize_part_001_def catch_block_def js_gt_def
        MAX_CHUNKS_def split: option.splits sum.splits prod.splits if_splits awaited.splits)
qed

subsection \<open>The receiver\<close>

lemma sanitize_id_eq_iff: "sanitize_id u = u \<longleftrightarrow> list_all id_char u"
  by (simp add: sanitize_id_def filter_id_conv list_all_iff)

lemma sanitize_index_eq_iff: "sanitize_index c = c \<longleftrightarrow> list_all digit_char c"
  by (simp add: sanitize_index_def filter_id_conv list_all_iff)

lemma upload_chunk_400_no_write:
  "fst (upload_chunk_POST cfg form w) = Json_error msg 400 \<Longrightarrow> snd (upload_chunk_POST cfg form w) = w"
  by (auto simp: upload_chunk_POST_def split: option.splits form_value.splits if_splits sum.splits)

lemma upload_chunk_accepts:
  assumes "form_file r = Blob payload" and "form_chunkIndex r = Text c" and "form_uploadId r = Text u"
    and "u \<noteq> []" and "list_all id_char u" and "c \<noteq> []" and "list_all digit_char c"
    and "mkdir_p (files w) (stagingDir cfg u) = Inr fsd"
    and "can_open_w fsd (chunkPath (stagingDir cfg u) c)"
  shows "upload_chunk_POST cfg (Some r) w =
           (Json_success, w\<lparr>files := fsd(chunkPath (stagingDir cfg u) c \<mapsto> File payload)\<rparr>)"
  using assms
  by (simp add: upload_chunk_POST_def sanitize_id_eq_iff [THEN iffD2]
      sanitize_index_eq_iff [THEN iffD2] writeFile_def)

subsection \<open>The upload id in finalize\<close>

lemma finalize_uses_sanitized_id:
  "finalize_route cfg (Some (b\<lparr>uploadId := Some u\<rparr>)) w =
     finalize_route cfg (Some (b\<lparr>uploadId := Some (sanitize_id u)\<rparr>)) w"
  "finalize_part_001 cfg (Some (b\<lparr>uploadId := Some u\<rparr>)) w =
     finalize_part_001 cfg (Some (b\<lparr>uploadId := Some (sanitize_id u)\<rparr>)) w"
  by (simp_all add: finalize_route_def finalize_part_001_def sanitize_id_idem
      split: option.splits sum.splits prod.splits awaited.splits)

subsection \<open>What finalize can change\<close>

lemma rm_rf_files_cases:
  "files (snd (rm_rf d w)) q = files w q \<or> files (snd (rm_rf d w)) q = None"
  by (auto simp: rm_rf_def remove_tree_def split: list.splits)

lemma try_block_frame:
  assumes "q \<noteq> p \<or> \<not> can_open_w fs p"
    and "try_block tempDir (fst (createWriteStream fs p)) tc (snd (createWriteStream fs p)) =
           (a, fs3, ws3)"
  shows "fs3 q = fs q" and "files (ws_destroy ws3 (v\<lparr>files := fs3\<rparr>)) q = fs q"
proof -
  obtain ws fs2 where c: "createWriteStream fs p = (ws, fs2)"
    by (cases "createWriteStream fs p")
  then have ws: "ws_path ws = p" "ws_ok ws = can_open_w fs p" and fs2: "fs2 q = fs q"
    using assms(1) by (auto simp: createWriteStream_def split: if_splits)
  obtain r ws' where r: "assemble tempDir ws tc 0 fs2 = (r, ws')"
    by (cases "assemble tempDir ws tc 0 fs2")
  have ws': "ws_path ws' = p" "ws_ok ws' = can_open_w fs p"
    using assemble_keeps_stream [of tempDir ws tc 0 fs2] ws by (simp_all add: r)
  have off: "q \<noteq> ws_path ws' \<or> \<not> ws_ok ws'"
    using assms(1) ws' by simp
  have "fs3 q = fs q \<and> ws_path ws3 = p \<and> ws_ok ws3 = can_open_w fs p"
    using assms(2) off ws' fs2
    by (cases r) (auto simp: c try_block_def r ws_end_def ws_flush_frame split: if_splits)
  then show "fs3 q = fs q" and "files (ws_destroy ws3 (v\<lparr>files := fs3\<rparr>)) q = fs q"
    using assms(1) by (auto simp: ws_destroy_simps ws_flush_frame)
qed

lemma finalize_files_cases:
  assumes "handler = finalize_route \<or> handler = finalize_part_001"
  shows "files (snd (handler cfg body w)) q = None \<or>
         files (snd (handler cfg body w)) q = files w q \<or>
         files (snd (handler cfg body w)) q = Some Dir \<or>
         (\<exists>b f fsd. body = Some b \<and> fileName b = Some f \<and>
            mkdir_p (files w) (uploadsDir cfg) = Inr fsd \<and>
            can_open_w fsd (join1 (uploadsDir cfg) (basename f)) \<and>
            q = join1 (uploadsDir cfg) (basename f))"
proof -
  let ?res = "files (snd (handler cfg body w)) q"
  have hs: "handler cfg body w = finalize_route cfg body w \<or>
            handler cfg body w = finalize_part_001 cfg body w"
    using assms by auto
  have none: "catch_block None w = (Json_error ''Assembly failed'' 500, w)"
    by (simp add: catch_block_def)
  have some: "snd (catch_block (Some t) w) = snd (rm_rf t w)" for t
    by (simp add: catch_block_def)
  consider (early) "snd (handler cfg body w) = w"
    | (caught) u where "snd (handler cfg body w) = snd (rm_rf (stagingDir cfg (sanitize_id u)) w)"
    | (notfound) fsd where "mkdir_p (files w) (uploadsDir cfg) = Inr fsd"
        "snd (handler cfg body w) = w\<lparr>files := fsd\<rparr>"
    | (run) b u f fsd where "body = Some b" "\<not> js_gt (totalChunks b) MAX_CHUNKS"
        "\<not> js_lt (totalChunks b) (Num 1)" "uploadId b = Some u" "fileName b = Some f"
        "mkdir_p (files w) (uploadsDir cfg) = Inr fsd"
        "existsSync fsd (stagingDir cfg (sanitize_id u))"
  proof (cases body)
    case None
    then have "snd (handler cfg body w) = w"
      using hs by (auto simp: finalize_route_def finalize_part_001_def none)
    then show ?thesis by (rule early)
  next
    case (Some b)
    show ?thesis
    proof (cases "js_gt (totalChunks b) MAX_CHUNKS \<or> js_lt (totalChunks b) (Num 1)")
      case True
      then have "snd (handler cfg body w) = w"
        using hs Some by (auto simp: finalize_route_def finalize_part_001_def)
      then show ?thesis by (rule early)
    next
      case valid: False
      show ?thesis
      proof (cases "uploadId b")
        case None
        then have "snd (handler cfg body w) = w"
          using hs Some valid by (auto simp: finalize_route_def finalize_part_001_def none)
        then show ?thesis by (rule early)
      next
        case u: (Some u)
        show ?thesis
        proof (cases "fileName b")
          case None
          then have "snd (handler cfg body w) = w"
            using hs Some valid u by (auto simp: finalize_route_def finalize_part_001_def none)
          then show ?thesis by (rule early)
        next
          case f: (Some f)
          show ?thesis
          proof (cases "mkdir_p (files w) (uploadsDir cfg)")
            case (Inl e)
            then have "snd (handler cfg body w) = snd (rm_rf (stagingDir cfg (sanitize_id u)) w)"
              using hs Some valid u f by (auto simp: finalize_route_def finalize_part_001_def some)
            then show ?thesis by (rule caught)
          next
            case (Inr fsd)
            show ?thesis
            proof (cases "existsSync fsd (stagingDir cfg (sanitize_id u))")
              case False
              then have "snd (handler cfg body w) = w\<lparr>files := fsd\<rparr>"
                using hs Some valid u f Inr
                by (auto simp: finalize_route_def finalize_part_001_def)
              with Inr show ?thesis by (rule notfound)
            next
              case True
              with Some valid u f Inr show ?thesis by (intro run) auto
            qed
          qed
        qed
      qed
    qed
  qed
  then show ?thesis
  proof cases
    case early
    then show ?thesis by simp
  next
    case caught
    then show ?thesis
      using rm_rf_files_cases [of "stagingDir cfg (sanitize_id u)" w q] by metis
  next
    case notfound
    then show ?thesis
      using mkdir_p_Inr [OF notfound(1)] by (auto simp: add_dirs_def)
  next
    case run
    let ?t = "stagingDir cfg (sanitize_id u)"
    let ?p = "join1 (uploadsDir cfg) (basename f)"
    obtain a fs3 ws3 where tb: "try_block ?t (fst (createWriteStream fsd ?p)) (totalChunks b)
                 (snd (createWriteStream fsd ?p)) = (a, fs3, ws3)"
      by (metis prod_cases3)
    let ?d = "ws_destroy ws3 (w\<lparr>files := fs3\<rparr>)"
    have rm1: "files (snd (rm_rf ?t ?d)) q = None \<or> files (snd (rm_rf ?t ?d)) q = files ?d q"
      using rm_rf_files_cases [of ?t ?d q] by auto
    have rm2: "files (snd (rm_rf ?t (snd (rm_rf ?t ?d)))) q = None \<or>
               files (snd (rm_rf ?t (snd (rm_rf ?t ?d)))) q = files ?d q"
      using rm_rf_files_cases [of ?t "snd (rm_rf ?t ?d)" q] rm1 by auto
    have "?res = None \<or> ?res = fs3 q \<or> ?res = files ?d q"
      using assms rm1 rm2
        finalize_route_run [OF run(2-7)] finalize_part_001_run [OF run(2-7)]
      unfolding run(1) tb
      by (auto split: prod.splits sum.splits awaited.splits)
    moreover have "fs3 q = fsd q" "files ?d q = fsd q" if "q \<noteq> ?p \<or> \<not> can_open_w fsd ?p"
      using try_block_frame [OF that tb] by simp_all
    moreover have "fsd q = files w q \<or> fsd q = Some Dir"
      using mkdir_p_Inr [OF run(6)] by (auto simp: add_dirs_def)
    ultimately show ?thesis
      using run(1,5,6) by metis
  qed
qed

lemma basename_no_slash: "CHR ''/'' \<notin> set (basename f)"
  by (auto simp: basename_def dest: set_takeWhileD)

subsection \<open>Chunk names, a run of receives, a complete assembly\<close>

lemma decimal_nonempty: "decimal n \<noteq> []"
  by (subst decimal.simps) simp

lemma digit_nth: "k < 10 \<Longrightarrow> digit_char (''0123456789'' ! k)"
  unfolding digit_char_def by (rule nth_mem) simp

lemma decimal_digits: "list_all digit_char (decimal n)"
proof (induction n rule: decimal.induct)
  case (1 n)
  show ?case
  proof (cases "n < 10")
    case True
    then show ?thesis
      by (subst decimal.simps) (simp add: digit_nth)
  next
    case False
    then show ?thesis
      using 1 by (subst decimal.simps) (simp add: digit_nth)
  qed
qed

lemma digit_nth_inj:
  "a < 10 \<Longrightarrow> b < 10 \<Longrightarrow> ''0123456789'' ! a = ''0123456789'' ! b \<Longrightarrow> a = b"
  by (subst (asm) nth_eq_iff_index_eq) simp_all

lemma decimal_inj: "decimal a = decimal b \<Longrightarrow> a = b"
proof (induction a arbitrary: b rule: decimal.induct)
  case (1 n)
  have big: "length (decimal m) \<ge> 2" if "\<not> m < 10" for m
    using that decimal_nonempty [of "m div 10"]
    by (subst decimal.simps) (cases "decimal (m div 10)"; simp)
  have small: "length (decimal m) = 1" if "m < 10" for m
    using that by (subst decimal.simps) simp
  show ?case
  proof (cases "n < 10")
    case n: True
    show ?thesis
    proof (cases "b < 10")
      case True
      with n "1.prems" show ?thesis
        by (simp add: decimal_small digit_nth_inj)
    next
      case False
      with n "1.prems" small [of n] big [of b] show ?thesis by simp
    qed
  next
    case n: False
    show ?thesis
    proof (cases "b < 10")
      case True
      with n "1.prems" small [of b] big [of n] show ?thesis by simp
    next
      case False
      have "decimal n = decimal (n div 10) @ [''0123456789'' ! (n mod 10)]"
        using n by (subst decimal.simps) simp
      moreover have "decimal b = decimal (b div 10) @ [''0123456789'' ! (b mod 10)]"
        using False by (subst decimal.simps) simp
      ultimately have "decimal (n div 10) = decimal (b div 10)"
        and "''0123456789'' ! (n mod 10) = ''0123456789'' ! (b mod 10)"
        using "1.prems" by simp_all
      then have "n div 10 = b div 10" and "n mod 10 = b mod 10"
        using "1.IH" [OF n] by (simp_all add: digit_nth_inj)
      then show ?thesis
        by (metis div_mult_mod_eq)
    qed
  qed
qed

lemma chunkPath_inj: "chunkPath t (decimal i) = chunkPath t (decimal j) \<longleftrightarrow> i = j"
  by (auto simp: chunkPath_eq dest: decimal_inj)

lemma chunkPath_not_prefix: "\<not> prefix (chunkPath t idx) t"
  by (simp add: chunkPath_eq)

lemma stagingDir_valid:
  "u \<noteq> [] \<Longrightarrow> list_all id_char u \<Longrightarrow> stagingDir cfg u = tmpdir cfg @ [''uploads'', u]"
  using stagingDir_eq [of cfg u] by (simp add: sanitize_id_eq_iff [THEN iffD2])


lemma add_dirs_idem_at:
  "add_dirs ((add_dirs fs t)(c \<mapsto> x)) t q = ((add_dirs fs t)(c \<mapsto> x)) q"
  by (auto simp: add_dirs_def)

lemma receive_one:
  assumes "u \<noteq> []" and "list_all id_char u"
    and "\<forall>q. prefix q (stagingDir cfg u) \<longrightarrow> \<not> is_File (files w q)"
    and "\<not> is_Dir (files w (chunkPath (stagingDir cfg u) (decimal i)))"
  shows "upload_chunk_POST cfg
           (Some \<lparr>form_file = Blob payload, form_chunkIndex = Text (decimal i),
                  form_uploadId = Text u\<rparr>) w =
         (Json_success,
          w\<lparr>files := (add_dirs (files w) (stagingDir cfg u))
                 (chunkPath (stagingDir cfg u) (decimal i) \<mapsto> File payload)\<rparr>)"
proof (rule upload_chunk_accepts)
  let ?t = "stagingDir cfg u"
  show "mkdir_p (files w) ?t = Inr (add_dirs (files w) ?t)"
    using assms(3) by (simp add: mkdir_p_def list_ex_iff)
  have "add_dirs (files w) ?t ?t = Some Dir"
    using assms(3) by (simp add: add_dirs_prefix_is_Dir)
  moreover have "add_dirs (files w) ?t (chunkPath ?t (decimal i)) = files w (chunkPath ?t (decimal i))"
    by (simp add: add_dirs_other chunkPath_not_prefix)
  ultimately show "can_open_w (add_dirs (files w) ?t) (chunkPath ?t (decimal i))"
    using assms(4) by (simp add: can_open_w_def chunkPath_eq)
qed (use assms decimal_nonempty decimal_digits in simp_all)

lemma receive_chunks_result:
  assumes "u \<noteq> []" and "list_all id_char u"
    and "\<forall>q. prefix q (stagingDir cfg u) \<longrightarrow> \<not> is_File (files w q)"
    and "\<forall>i\<in>set order. \<not> is_Dir (files w (chunkPath (stagingDir cfg u) (decimal i)))"
    and "distinct order"
  shows "fst (receive_chunks cfg u (map (\<lambda>i. (i, payload i)) order) w) =
           replicate (length order) Json_success \<and>
         rm_faults (snd (receive_chunks cfg u (map (\<lambda>i. (i, payload i)) order) w)) = rm_faults w \<and>
         (\<forall>i\<in>set order.
            files (snd (receive_chunks cfg u (map (\<lambda>i. (i, payload i)) order) w))
              (chunkPath (stagingDir cfg u) (decimal i)) = Some (File (payload i))) \<and>
         (\<forall>q. (\<forall>i\<in>set order. q \<noteq> chunkPath (stagingDir cfg u) (decimal i)) \<longrightarrow>
            files (snd (receive_chunks cfg u (map (\<lambda>i. (i, payload i)) order) w)) q =
              (if order = [] then files w q else add_dirs (files w) (stagingDir cfg u) q))"
  using assms(3-5)
proof (induction order arbitrary: w)
  case Nil
  then show ?case by simp
next
  case (Cons i rest)
  let ?t = "stagingDir cfg u"
  let ?c = "\<lambda>j. chunkPath ?t (decimal j)"
  let ?w1 = "w\<lparr>files := (add_dirs (files w) ?t)(?c i \<mapsto> File (payload i))\<rparr>"
  let ?res = "receive_chunks cfg u (map (\<lambda>i. (i, payload i)) rest) ?w1"
  have one: "upload_chunk_POST cfg
           (Some \<lparr>form_file = Blob (payload i), form_chunkIndex = Text (decimal i),
                  form_uploadId = Text u\<rparr>) w = (Json_success, ?w1)"
    using assms(1,2) Cons.prems(1,2) by (intro receive_one) simp_all
  have step: "receive_chunks cfg u (map (\<lambda>i. (i, payload i)) (i # rest)) w =
                (Json_success # fst ?res, snd ?res)"
    by (simp add: one split: prod.splits)
  have nofile: "\<forall>q. prefix q ?t \<longrightarrow> \<not> is_File (files ?w1 q)"
  proof (intro allI impI)
    fix q assume q: "prefix q ?t"
    then have "q \<noteq> ?c i"
      using chunkPath_not_prefix by metis
    moreover have "add_dirs (files w) ?t q = Some Dir"
      using q Cons.prems(1) by (simp add: add_dirs_prefix_is_Dir)
    ultimately show "\<not> is_File (files ?w1 q)" by simp
  qed
  have nodir: "\<forall>j\<in>set rest. \<not> is_Dir (files ?w1 (?c j))"
    using Cons.prems(2) by (auto simp: chunkPath_inj add_dirs_other chunkPath_not_prefix)
  have dist: "distinct rest" "i \<notin> set rest"
    using Cons.prems(3) by simp_all
  note IH = Cons.IH [OF nofile nodir dist(1)]
  have r1: "fst ?res = replicate (length rest) Json_success"
    and r2: "rm_faults (snd ?res) = rm_faults w"
    and r3: "\<forall>j\<in>set rest. files (snd ?res) (?c j) = Some (File (payload j))"
    and r4: "\<forall>q. (\<forall>j\<in>set rest. q \<noteq> ?c j) \<longrightarrow>
               files (snd ?res) q = (if rest = [] then files ?w1 q else add_dirs (files ?w1) ?t q)"
    using IH by simp_all
  have other: "files (snd ?res) q = files ?w1 q" if "\<forall>j\<in>set rest. q \<noteq> ?c j" for q
    using r4 that by (simp add: add_dirs_idem_at)
  have at_i: "files (snd ?res) (?c i) = Some (File (payload i))"
    using other [of "?c i"] dist(2) by (auto simp: chunkPath_inj)
  have rest_q: "files (snd ?res) q = add_dirs (files w) ?t q"
    if "\<forall>j\<in>set (i # rest). q \<noteq> ?c j" for q
    using other [of q] that by simp
  show ?case
    unfolding step using r1 r2 r3 at_i rest_q by simp
qed

lemma finalize_complete:
  fixes cfg :: config and b :: finalize_body and w :: world
  assumes handler: "handler = finalize_route \<or> handler = finalize_part_001"
    and body: "uploadId b = Some u" "fileName b = Some f" "totalChunks b = Num (int n)"
    and range: "1 \<le> n" "n \<le> 1000"
    and tempDir: "tempDir = stagingDir cfg (sanitize_id u)"
    and fp: "fp = join1 (uploadsDir cfg) (basename f)"
    and session: "existsSync (files w) tempDir"
    and chunks: "\<forall>j<n. files w (chunkPath tempDir (decimal j)) = Some (File (d j))"
    and mkdir: "mkdir_p (files w) (uploadsDir cfg) = Inr fsd"
    and opens: "can_open_w fsd fp"
    and apart: "\<not> prefix tempDir fp"
    and cleanup: "\<not> prefix [True] (rm_faults w)"
  shows "handler cfg (Some b) w =
           (Json_success_path (''/uploads/'' @ basename f),
            w\<lparr>files := remove_tree (fsd(fp \<mapsto> File (concat (map d [0..<n])))) tempDir,
              rm_faults := tl (rm_faults w)\<rparr>)"
proof -
  have fsd: "fsd = add_dirs (files w) (uploadsDir cfg)"
    using mkdir by (rule mkdir_p_Inr)
  have "try_block tempDir (fst (createWriteStream fsd fp)) (Num (int n))
              (snd (createWriteStream fsd fp)) =
            (if n < n
             then (Settled (Inl (MissingChunk n)), fsd(fp \<mapsto> File []),
                   \<lparr>ws_path = fp, ws_ok = True, ws_queue = map d [0..<n]\<rparr>)
             else (Settled (Inr ()), fsd(fp \<mapsto> File (concat (map d [0..<n]))),
                   \<lparr>ws_path = fp, ws_ok = True, ws_queue = []\<rparr>))"
  proof (rule try_block_result)
    show "\<forall>j<n. fsd (chunkPath tempDir (decimal j)) = Some (File (d j))"
      unfolding fsd using chunks by (intro allI impI add_dirs_Some) simp
  qed (use opens apart in simp_all)
  then have tb: "try_block tempDir (fst (createWriteStream fsd fp)) (Num (int n))
              (snd (createWriteStream fsd fp)) =
            (Settled (Inr ()), fsd(fp \<mapsto> File (concat (map d [0..<n]))),
             \<lparr>ws_path = fp, ws_ok = True, ws_queue = []\<rparr>)"
    by simp
  have ex: "existsSync fsd (stagingDir cfg (sanitize_id u))"
    using session tempDir by (simp add: fsd existsSync_def add_dirs_not_None)
  have valid: "\<not> js_gt (totalChunks b) MAX_CHUNKS" "\<not> js_lt (totalChunks b) (Num 1)"
    using body(3) range by (simp_all add: js_gt_def MAX_CHUNKS_def)
  have "finalize_part_001 cfg (Some b) w =
      (Json_success_path (''/uploads/'' @ basename f),
       snd (rm_rf tempDir (w\<lparr>files := fsd(fp \<mapsto> File (concat (map d [0..<n])))\<rparr>)))"
    using finalize_part_001_run [OF valid body(1,2) mkdir ex] tb tempDir fp body(3)
    by (simp add: ws_destroy_empty)
  moreover have "finalize_route cfg (Some b) w = finalize_part_001 cfg (Some b) w"
    using cleanup by (rule finalize_route_eq_part_001)
  ultimately have "handler cfg (Some b) w =
      (Json_success_path (''/uploads/'' @ basename f),
       snd (rm_rf tempDir (w\<lparr>files := fsd(fp \<mapsto> File (concat (map d [0..<n])))\<rparr>)))"
    using handler by auto
  then show ?thesis
    using cleanup by (simp add: rm_rf_ok)
qed

subsection \<open>A run that meets a missing chunk\<close>

lemma first_missing_chunk_exists:
  assumes "i < n" and "\<not> existsSync fs (chunkPath tempDir (decimal i))"
  shows "\<exists>m\<le>i. first_missing_chunk fs tempDir n = Some m"
proof -
  define m where "m = (LEAST j. \<not> existsSync fs (chunkPath tempDir (decimal j)))"
  have "\<not> existsSync fs (chunkPath tempDir (decimal m))"
    unfolding m_def using assms(2) by (rule LeastI)
  moreover have mi: "m \<le> i"
    unfolding m_def using assms(2) by (rule Least_le)
  moreover have "\<forall>j<m. existsSync fs (chunkPath tempDir (decimal j))"
    unfolding m_def using not_less_Least by blast
  ultimately have "first_missing_chunk fs tempDir n = Some m"
    using assms(1) by (simp add: first_missing_chunk_def find_upt_Some)
  with mi show ?thesis by blast
qed

lemma take_upt_min: "take k [0..<m] = [0..<min k m]"
  by (cases "k \<le> m") (simp_all add: min_def)

lemma missing_chunk_run:
  fixes cfg :: config and b :: finalize_body and w :: world
  defines "dest \<equiv> uploadsDir cfg"
  assumes body: "uploadId b = Some u" "fileName b = Some f" "totalChunks b = Num (int n)"
    and range: "1 \<le> n" "n \<le> 1000"
    and tempDir: "tempDir = stagingDir cfg (sanitize_id u)"
    and fp: "fp = join1 dest (basename f)"
    and session: "existsSync (files w) tempDir"
    and missing: "first_missing_chunk (files w) tempDir n = Some m"
    and chunks: "\<forall>j<m. \<not> is_Dir (files w (chunkPath tempDir (decimal j)))"
    and mkdir: "mkdir_p (files w) dest = Inr fsd"
    and opens: "can_open_w fsd fp"
    and apart: "\<not> prefix tempDir fp"
    and cleanup: "\<not> prefix [True, True] (rm_faults w)"
    and truncated: "truncated = concat (map (\<lambda>j. file_bytes (files w (chunkPath tempDir (decimal j))))
                                        [0..<min (flushed_before_destroy w) m])"
    and handler: "handler = finalize_route \<or> handler = finalize_part_001"
  shows "try_block tempDir (fst (createWriteStream fsd fp)) (totalChunks b)
               (snd (createWriteStream fsd fp)) =
           (Settled (Inl (MissingChunk m)), fsd(fp \<mapsto> File []),
            \<lparr>ws_path = fp, ws_ok = True,
              ws_queue = map (\<lambda>j. file_bytes (files w (chunkPath tempDir (decimal j)))) [0..<m]\<rparr>) \<and>
         fst (handler cfg (Some b) w) = Json_error ''Assembly failed'' 500 \<and>
         files (snd (handler cfg (Some b) w)) = remove_tree (fsd(fp \<mapsto> File truncated)) tempDir \<and>
         \<not> existsSync (files (snd (handler cfg (Some b) w))) tempDir \<and>
         files (snd (handler cfg (Some b) w)) fp = Some (File truncated)"
proof -
  let ?d = "\<lambda>j. file_bytes (files w (chunkPath tempDir (decimal j)))"
  let ?ws = "\<lparr>ws_path = fp, ws_ok = True, ws_queue = map ?d [0..<m]\<rparr>"
  have fsd: "fsd = add_dirs (files w) dest"
    using mkdir by (rule mkdir_p_Inr)
  have m: "m < n" "files w (chunkPath tempDir (decimal m)) = None"
    "\<forall>j<m. files w (chunkPath tempDir (decimal j)) \<noteq> None"
    using missing by (simp_all add: first_missing_chunk_Some)
  have present: "files w (chunkPath tempDir (decimal j)) = Some (File (?d j))" if "j < m" for j
  proof -
    from that m(3) obtain x where x: "files w (chunkPath tempDir (decimal j)) = Some x" by auto
    with that chunks show ?thesis by (cases x) auto
  qed
  have fp': "fp = dest @ [basename f]"
    using open_under_made_root(1) [OF mkdir] fp opens by simp
  have not_under: "\<not> prefix (chunkPath tempDir idx) dest" for idx
  proof
    assume "prefix (chunkPath tempDir idx) dest"
    then have "prefix tempDir fp"
      unfolding fp' chunkPath_eq by (meson append_prefixD prefix_order.trans prefixI)
    with apart show False by simp
  qed
  have "try_block tempDir (fst (createWriteStream fsd fp)) (Num (int n))
              (snd (createWriteStream fsd fp)) =
            (if m < n
             then (Settled (Inl (MissingChunk m)), fsd(fp \<mapsto> File []), ?ws)
             else (Settled (Inr ()), fsd(fp \<mapsto> File (concat (map ?d [0..<m]))),
                   \<lparr>ws_path = fp, ws_ok = True, ws_queue = []\<rparr>))"
  proof (rule try_block_result)
    show "\<forall>j<m. fsd (chunkPath tempDir (decimal j)) = Some (File (?d j))"
      unfolding fsd by (intro allI impI add_dirs_Some present)
    show "m < n \<longrightarrow> fsd (chunkPath tempDir (decimal m)) = None"
      using m(2) not_under by (simp add: fsd add_dirs_other)
  qed (use opens apart m in simp_all)
  then have tb: "try_block tempDir (fst (createWriteStream fsd fp)) (totalChunks b)
              (snd (createWriteStream fsd fp)) =
            (Settled (Inl (MissingChunk m)), fsd(fp \<mapsto> File []), ?ws)"
    using m(1) body(3) by simp
  have destroyed: "ws_destroy ?ws (w\<lparr>files := fsd(fp \<mapsto> File [])\<rparr>) =
      w\<lparr>files := fsd(fp \<mapsto> File truncated)\<rparr>"
    by (simp add: ws_destroy_def ws_flush_fresh take_map take_upt_min truncated)
  have ex: "existsSync fsd (stagingDir cfg (sanitize_id u))"
    using session tempDir by (simp add: fsd existsSync_def add_dirs_not_None)
  have valid: "\<not> js_gt (totalChunks b) MAX_CHUNKS" "\<not> js_lt (totalChunks b) (Num 1)"
    using body(3) range by (simp_all add: js_gt_def MAX_CHUNKS_def)
  have run: "handler cfg (Some b) w =
      (Json_error ''Assembly failed'' 500,
       snd (rm_rf tempDir (snd (rm_rf tempDir (w\<lparr>files := fsd(fp \<mapsto> File truncated)\<rparr>)))))"
    using handler
      finalize_route_run [OF valid body(1,2) mkdir [unfolded dest_def] ex]
      finalize_part_001_run [OF valid body(1,2) mkdir [unfolded dest_def] ex]
      tb destroyed tempDir fp
    by (auto simp: dest_def)
  have files: "files (snd (handler cfg (Some b) w)) = remove_tree (fsd(fp \<mapsto> File truncated)) tempDir"
    using cleanup by (simp add: run rm_rf_twice_files)
  show ?thesis
    using tb apart files run by (simp add: remove_tree_def existsSync_def)
qed

subsection \<open>The answer of part_001 does not depend on how the deletions go\<close>

lemma part_001_response_ignores_rm_faults:
  "fst (finalize_part_001 cfg body (w\<lparr>rm_faults := faults\<rparr>)) = fst (finalize_part_001 cfg body w)"
  by (simp add: finalize_part_001_def finally_part_001_def catch_block_def
      split: option.splits sum.splits prod.splits awaited.splits)

subsection \<open>A destination that cannot be opened\<close>

text \<open>With every chunk in place and a destination that does not open, the loop runs to
  its end, the report of the failed open has been missed, and the handler never answers:
  the staging directory stays.\<close>

lemma failed_open_gives_no_answer:
  fixes cfg :: config and b :: finalize_body and w :: world
  assumes handler: "handler = finalize_route \<or> handler = finalize_part_001"
    and body: "uploadId b = Some u" "fileName b = Some f" "totalChunks b = Num (int n)"
    and range: "1 \<le> n" "n \<le> 1000"
    and tempDir: "tempDir = stagingDir cfg (sanitize_id u)"
    and fp: "fp = join1 (uploadsDir cfg) (basename f)"
    and session: "existsSync (files w) tempDir"
    and chunks: "\<forall>j<n. files w (chunkPath tempDir (decimal j)) = Some (File (d j))"
    and mkdir: "mkdir_p (files w) (uploadsDir cfg) = Inr fsd"
    and closed: "\<not> can_open_w fsd fp"
  shows "handler cfg (Some b) w = (No_response, w\<lparr>files := fsd\<rparr>)"
proof -
  let ?ws = "\<lparr>ws_path = fp, ws_ok = False, ws_queue = []\<rparr>"
  have fsd: "fsd = add_dirs (files w) (uploadsDir cfg)"
    using mkdir by (rule mkdir_p_Inr)
  have cw: "createWriteStream fsd fp = (?ws, fsd)"
    using closed by (simp add: createWriteStream_def)
  have "assemble tempDir ?ws (Num (int n)) 0 fsd =
          (if n < n then Inl (MissingChunk n) else Inr (),
           ?ws\<lparr>ws_queue := ws_queue ?ws @ map d [0..<n]\<rparr>)"
  proof (rule assemble_run)
    show "\<forall>j. 0 \<le> j \<and> j < n \<longrightarrow> fsd (chunkPath tempDir (decimal j)) = Some (File (d j))"
      unfolding fsd using chunks by (intro allI impI add_dirs_Some) simp
  qed simp_all
  then have tb: "try_block tempDir (fst (createWriteStream fsd fp)) (totalChunks b)
              (snd (createWriteStream fsd fp)) =
            (Pending, fsd, \<lparr>ws_path = fp, ws_ok = False, ws_queue = map d [0..<n]\<rparr>)"
    using range(1) body(3) by (simp add: cw try_block_def ws_end_def)
  have ex: "existsSync fsd (stagingDir cfg (sanitize_id u))"
    using session tempDir by (simp add: fsd existsSync_def add_dirs_not_None)
  have valid: "\<not> js_gt (totalChunks b) MAX_CHUNKS" "\<not> js_lt (totalChunks b) (Num 1)"
    using body(3) range by (simp_all add: js_gt_def MAX_CHUNKS_def)
  show ?thesis
    using handler finalize_route_run [OF valid body(1,2) mkdir ex]
      finalize_part_001_run [OF valid body(1,2) mkdir ex] tb tempDir fp
    by auto
qed

section \<open>The claims\<close>

text \<open>
  C1. The round trip. The session id is not empty and within the character class, \<open>n\<close>
  lies in \<open>[1, 1000]\<close>, and the receiver is called once for every index below \<open>n\<close>, in
  any order, with \<open>payloads ! i\<close> for index \<open>i\<close>. The world the upload starts from lets the
  staging directory and the destination root be made (no file stands on the way), has
  no directory at a chunk path or at the destination, and keeps the destination outside
  the staging directory and the staging directory outside the destination; the
  deletion does not fail. Then every receive succeeds, both handlers finalize with
  success, the destination file holds the payloads concatenated in index order, and the
  staging directory no longer exists. (The payloads need not be non-empty.)
\<close>

theorem upload_round_trip:
  fixes cfg :: config and b :: finalize_body and w :: world
  assumes handler: "handler = finalize_route \<or> handler = finalize_part_001"
    and valid: "u \<noteq> []" "list_all id_char u"
    and range: "1 \<le> n" "n \<le> 1000"
    and payloads: "length payloads = n"
    and order: "distinct order" "set order = {0..<n}"
    and body: "uploadId b = Some u" "fileName b = Some f" "totalChunks b = Num (int n)"
    and tempDir: "tempDir = stagingDir cfg u"
    and fp: "fp = join1 (uploadsDir cfg) (basename f)"
    and staging: "\<not> list_ex (\<lambda>q. is_File (files w q)) (prefixes tempDir)"
      "\<forall>j<n. \<not> is_Dir (files w (chunkPath tempDir (decimal j)))"
    and dest: "\<not> list_ex (\<lambda>q. is_File (files w q)) (prefixes (uploadsDir cfg))"
      "basename f \<noteq> []" "basename f \<noteq> ''.''" "basename f \<noteq> ''..''"
      "\<not> is_Dir (files w fp)"
    and apart: "\<not> prefix tempDir fp" "\<not> prefix fp tempDir"
    and cleanup: "\<not> prefix [True] (rm_faults w)"
    and received: "received = receive_chunks cfg u (map (\<lambda>i. (i, payloads ! i)) order) w"
  shows "fst received = replicate n Json_success \<and>
         fst (handler cfg (Some b) (snd received)) =
           Json_success_path (''/uploads/'' @ basename f) \<and>
         files (snd (handler cfg (Some b) (snd received))) fp = Some (File (concat payloads)) \<and>
         \<not> existsSync (files (snd (handler cfg (Some b) (snd received)))) tempDir"
proof -
  let ?w1 = "snd received"
  let ?dest = "uploadsDir cfg"
  let ?c = "\<lambda>j. chunkPath tempDir (decimal j)"
  have len: "length order = n"
    using order distinct_card [of order] by simp
  have ne: "order \<noteq> []"
    using len range(1) by auto
  have san: "sanitize_id u = u"
    using valid(2) by (simp add: sanitize_id_eq_iff)
  have fp': "fp = ?dest @ [basename f]"
    using fp dest(2-4) by (simp add: join1_def)
  have nofile: "\<forall>q. prefix q tempDir \<longrightarrow> \<not> is_File (files w q)"
    using staging(1) by (simp add: list_ex_iff)
  have nofile_dest: "\<forall>q. prefix q ?dest \<longrightarrow> \<not> is_File (files w q)"
    using dest(1) by (simp add: list_ex_iff)
  have nodir: "\<forall>i\<in>set order. \<not> is_Dir (files w (?c i))"
    using staging(2) order(2) by simp
  note R = receive_chunks_result [OF valid nofile [unfolded tempDir] nodir [unfolded tempDir]
      order(1), of "\<lambda>i. payloads ! i", folded tempDir received]
  have r1: "fst received = replicate n Json_success"
    and r2: "rm_faults ?w1 = rm_faults w"
    and r3: "\<forall>j<n. files ?w1 (?c j) = Some (File (payloads ! j))"
    and r4: "\<forall>q. (\<forall>i<n. q \<noteq> ?c i) \<longrightarrow> files ?w1 q = add_dirs (files w) tempDir q"
    using R ne len order(2) by simp_all
  have not_chunk: "q \<noteq> ?c i" if "\<not> prefix tempDir q" for q i
    using that by (metis chunkPath_eq prefixI)
  have under_fp: "\<not> prefix tempDir q" if "prefix q fp" for q
    using that apart(1) prefix_order.trans by blast
  have w1_at: "files ?w1 q = add_dirs (files w) tempDir q" if "prefix q fp" for q
    using r4 not_chunk [OF under_fp [OF that]] by simp
  have session: "existsSync (files ?w1) tempDir"
  proof -
    have "tempDir \<noteq> ?c i" for i by (simp add: chunkPath_eq)
    then have "files ?w1 tempDir = add_dirs (files w) tempDir tempDir"
      using r4 by simp
    then show ?thesis
      using nofile by (simp add: existsSync_def add_dirs_prefix_is_Dir)
  qed
  have nofile1: "\<not> is_File (files ?w1 q)" if "prefix q ?dest" for q
  proof -
    have "prefix q fp" using that by (simp add: fp' prefix_prefix)
    then have "files ?w1 q = add_dirs (files w) tempDir q" by (rule w1_at)
    moreover have "\<not> is_File (files w q)" using nofile_dest that by simp
    ultimately show ?thesis
      by (cases "files w q" rule: is_File.cases) (auto simp: add_dirs_def)
  qed
  have mkdir: "mkdir_p (files ?w1) ?dest = Inr (add_dirs (files ?w1) ?dest)"
    using nofile1 by (simp add: mkdir_p_def list_ex_iff)
  have opens: "can_open_w (add_dirs (files ?w1) ?dest) fp"
  proof -
    have "add_dirs (files ?w1) ?dest ?dest = Some Dir"
      using nofile1 [of ?dest] by (simp add: add_dirs_prefix_is_Dir)
    moreover have "add_dirs (files ?w1) ?dest fp = files ?w1 fp"
      by (simp add: add_dirs_other fp')
    moreover have "files ?w1 fp = files w fp"
      using w1_at [of fp] apart(2) by (simp add: add_dirs_other)
    ultimately show ?thesis
      using dest(5) by (simp add: can_open_w_def fp')
  qed
  have run: "handler cfg (Some b) ?w1 =
      (Json_success_path (''/uploads/'' @ basename f),
       ?w1\<lparr>files := remove_tree ((add_dirs (files ?w1) ?dest)
                  (fp \<mapsto> File (concat (map (\<lambda>j. payloads ! j) [0..<n])))) tempDir,
           rm_faults := tl (rm_faults ?w1)\<rparr>)"
    using handler body range _ fp session r3 mkdir opens apart(1)
  proof (rule finalize_complete)
    show "tempDir = stagingDir cfg (sanitize_id u)" by (simp add: san tempDir)
    show "\<not> prefix [True] (rm_faults ?w1)" using cleanup by (simp add: r2)
  qed
  have "concat (map (\<lambda>j. payloads ! j) [0..<n]) = concat payloads"
    using payloads map_nth [of payloads] by simp
  then show ?thesis
    using r1 apart(1) by (simp add: run remove_tree_def existsSync_def)
qed


theorem upload_round_trip_witness:
  "fst (receive_chunks example_cfg ''abc-1'' [(1, ''BB''), (0, ''AAAA'')] example_world) =
     [Json_success, Json_success] \<and>
   fst (finalize_route example_cfg (Some (example_body (Num 2)))
          (snd (receive_chunks example_cfg ''abc-1'' [(1, ''BB''), (0, ''AAAA'')] example_world))) =
     Json_success_path ''/uploads/out.bin'' \<and>
   files (snd (finalize_route example_cfg (Some (example_body (Num 2)))
          (snd (receive_chunks example_cfg ''abc-1'' [(1, ''BB''), (0, ''AAAA'')] example_world))))
     [''app'', ''public'', ''uploads'', ''out.bin''] = Some (File ''AAAABB'') \<and>
   \<not> existsSync (files (snd (finalize_route example_cfg (Some (example_body (Num 2)))
          (snd (receive_chunks example_cfg ''abc-1'' [(1, ''BB''), (0, ''AAAA'')] example_world)))))
     [''tmp'', ''uploads'', ''abc-1''] \<and>
   fst (finalize_part_001 example_cfg (Some (example_body (Num 2)))
          (snd (receive_chunks example_cfg ''abc-1'' [(1, ''BB''), (0, ''AAAA'')] example_world))) =
     Json_success_path ''/uploads/out.bin'' \<and>
   files (snd (finalize_part_001 example_cfg (Some (example_body (Num 2)))
          (snd (receive_chunks example_cfg ''abc-1'' [(1, ''BB''), (0, ''AAAA'')] example_world))))
     [''app'', ''public'', ''uploads'', ''out.bin''] = Some (File ''AAAABB'') \<and>
   \<not> existsSync (files (snd (finalize_part_001 example_cfg (Some (example_body (Num 2)))
          (snd (receive_chunks example_cfg ''abc-1'' [(1, ''BB''), (0, ''AAAA'')] example_world)))))
     [''tmp'', ''uploads'', ''abc-1'']"
proof -
  note t = upload_round_trip [where cfg = example_cfg and b = "example_body (Num 2)"
      and w = example_world and u = "''abc-1''" and f = "''out.bin''" and n = 2
      and payloads = "[''AAAA'', ''BB'']" and order = "[1, 0]"
      and tempDir = "[''tmp'', ''uploads'', ''abc-1'']"
      and fp = "[''app'', ''public'', ''uploads'', ''out.bin'']"
      and received = "receive_chunks example_cfg ''abc-1'' [(1, ''BB''), (0, ''AAAA'')] example_world"]
  have ids: "''abc-1'' \<noteq> []" "list_all id_char ''abc-1''"
    by (simp_all add: id_char_def)
  have nums: "(1::nat) \<le> 2" "(2::nat) \<le> 1000" "length [''AAAA'', ''BB''] = 2"
    "distinct [1, 0::nat]" "set [1, 0::nat] = {0..<2}"
    by auto
  have body: "uploadId (example_body (Num 2)) = Some ''abc-1''"
    "fileName (example_body (Num 2)) = Some ''out.bin''"
    "totalChunks (example_body (Num 2)) = Num (int 2)"
    by (simp_all add: example_body_def)
  have paths: "[''tmp'', ''uploads'', ''abc-1''] = stagingDir example_cfg ''abc-1''"
    "[''app'', ''public'', ''uploads'', ''out.bin''] = join1 (uploadsDir example_cfg) (basename ''out.bin'')"
    by (simp_all add: example_defs path_defs)
  have staging: "\<not> list_ex (\<lambda>q. is_File (files example_world q)) (prefixes [''tmp'', ''uploads'', ''abc-1''])"
    "\<forall>j<2. \<not> is_Dir (files example_world (chunkPath [''tmp'', ''uploads'', ''abc-1''] (decimal j)))"
    by (simp_all add: example_defs path_defs decimal_small less_Suc_eq numeral_2_eq_2)
  have dest: "\<not> list_ex (\<lambda>q. is_File (files example_world q)) (prefixes (uploadsDir example_cfg))"
    "basename ''out.bin'' \<noteq> []" "basename ''out.bin'' \<noteq> ''.''" "basename ''out.bin'' \<noteq> ''..''"
    "\<not> is_Dir (files example_world [''app'', ''public'', ''uploads'', ''out.bin''])"
    "\<not> prefix [''tmp'', ''uploads'', ''abc-1''] [''app'', ''public'', ''uploads'', ''out.bin'']"
    "\<not> prefix [''app'', ''public'', ''uploads'', ''out.bin''] [''tmp'', ''uploads'', ''abc-1'']"
    "\<not> prefix [True] (rm_faults example_world)"
    by (simp_all add: example_defs path_defs)
  have rec: "receive_chunks example_cfg ''abc-1'' [(1, ''BB''), (0, ''AAAA'')] example_world =
      receive_chunks example_cfg ''abc-1'' (map (\<lambda>i. (i, [''AAAA'', ''BB''] ! i)) [1, 0]) example_world"
    by simp
  have r: "finalize_route = finalize_route \<or> finalize_route = finalize_part_001"
    and p: "finalize_part_001 = finalize_route \<or> finalize_part_001 = finalize_part_001"
    by simp_all
  show ?thesis
    using t [OF r ids nums body paths staging dest rec] t [OF p ids nums body paths staging dest rec]
    by (simp add: basename_def numeral_2_eq_2)
qed

text \<open>
  C2, as stated, fails for finalize: the upload id \<^verbatim>\<open>../abc-1\<close> has characters outside the
  class, and route.ts does not reject it. It strips them, finds the staging directory of
  \<^verbatim>\<open>abc-1\<close>, assembles the file and deletes that directory.
\<close>

theorem finalize_accepts_invalid_session_id:
  "\<not> list_all id_char ''../abc-1'' \<and>
   fst (finalize_route example_cfg (Some ((example_body (Num 2))\<lparr>uploadId := Some ''../abc-1''\<rparr>))
          example_staged) = Json_success_path ''/uploads/out.bin'' \<and>
   files (snd (finalize_route example_cfg
                 (Some ((example_body (Num 2))\<lparr>uploadId := Some ''../abc-1''\<rparr>)) example_staged))
     [''app'', ''public'', ''uploads'', ''out.bin''] = Some (File ''AAAABB'') \<and>
   files (snd (finalize_route example_cfg
                 (Some ((example_body (Num 2))\<lparr>uploadId := Some ''../abc-1''\<rparr>)) example_staged))
     [''tmp'', ''uploads'', ''abc-1''] = None"
  by (simp add: finalize_route_def example_defs path_defs fs_defs handler_defs assemble.simps
      decimal_small)

text \<open>
  C2, amended. For an upload id with a character outside \<^verbatim>\<open>[a-zA-Z0-9-_]\<close>: the receiver
  rejects the request with a caller error and the world unchanged (\<^verbatim>\<open>Invalid uploadId\<close>
  when the payload and the chunk index are present, \<^verbatim>\<open>Missing fields\<close> otherwise); the
  finalize handlers do not reject it, they run exactly as on the id with those
  characters stripped.
\<close>

theorem invalid_session_id:
  assumes "\<not> list_all id_char u"
  shows "(form_uploadId r = Text u \<longrightarrow>
            upload_chunk_POST cfg (Some r) w = (Json_error ''Invalid uploadId'' 400, w) \<or>
            upload_chunk_POST cfg (Some r) w = (Json_error ''Missing fields'' 400, w)) \<and>
         (form_uploadId r = Text u \<and> \<not> falsy (form_file r) \<and> \<not> falsy (form_chunkIndex r) \<longrightarrow>
            upload_chunk_POST cfg (Some r) w = (Json_error ''Invalid uploadId'' 400, w)) \<and>
         finalize_route cfg (Some (b\<lparr>uploadId := Some u\<rparr>)) w =
           finalize_route cfg (Some (b\<lparr>uploadId := Some (sanitize_id u)\<rparr>)) w \<and>
         finalize_part_001 cfg (Some (b\<lparr>uploadId := Some u\<rparr>)) w =
           finalize_part_001 cfg (Some (b\<lparr>uploadId := Some (sanitize_id u)\<rparr>)) w"
proof -
  have "sanitize_id u \<noteq> u"
    using assms by (simp add: sanitize_id_eq_iff)
  then have "form_uploadId r = Text u \<Longrightarrow>
      upload_chunk_POST cfg (Some r) w =
        (if falsy (form_file r) \<or> falsy (form_chunkIndex r) \<or> falsy (form_uploadId r)
         then (Json_error ''Missing fields'' 400, w) else (Json_error ''Invalid uploadId'' 400, w))"
    by (simp add: upload_chunk_POST_def)
  moreover have "u \<noteq> []"
    using assms by auto
  ultimately show ?thesis
    using finalize_uses_sanitized_id [where cfg = cfg and b = b and u = u and w = w] by auto
qed

theorem invalid_session_id_witness:
  "\<not> list_all id_char ''../abc-1'' \<and>
   upload_chunk_POST example_cfg (Some (example_form (Blob ''AAAA'') ''0'' ''../abc-1'')) example_world =
     (Json_error ''Invalid uploadId'' 400, example_world) \<and>
   sanitize_id ''../abc-1'' = ''abc-1'' \<and>
   finalize_route example_cfg (Some ((example_body (Num 2))\<lparr>uploadId := Some ''../abc-1''\<rparr>))
       example_staged =
     finalize_route example_cfg (Some (example_body (Num 2))) example_staged \<and>
   finalize_part_001 example_cfg (Some ((example_body (Num 2))\<lparr>uploadId := Some ''../abc-1''\<rparr>))
       example_staged =
     finalize_part_001 example_cfg (Some (example_body (Num 2))) example_staged"
proof -
  have bad: "\<not> list_all id_char ''../abc-1''"
    by (simp add: id_char_def)
  have s: "sanitize_id ''../abc-1'' = ''abc-1''"
    by (simp add: sanitize_id_def id_char_def)
  have b: "(example_body (Num 2))\<lparr>uploadId := Some ''abc-1''\<rparr> = example_body (Num 2)"
    by (simp add: example_body_def)
  show ?thesis
    using invalid_session_id [OF bad, where r = "example_form (Blob ''AAAA'') ''0'' ''../abc-1''"
        and cfg = example_cfg and w = example_world]
      invalid_session_id [OF bad, where b = "example_body (Num 2)" and cfg = example_cfg
        and w = example_staged]
      bad
    by (simp add: s b example_form_def)
qed

text \<open>
  C3. A failing cleanup must not change the result. In route.ts it does: with both chunks
  staged and the first \<^verbatim>\<open>rm\<close> failing, the destination file is assembled in full and the
  handler still answers \<^verbatim>\<open>Assembly failed\<close> with status 500.
\<close>

theorem route_cleanup_failure_masks_success:
  "fst (finalize_route example_cfg (Some (example_body (Num 2))) example_staged_rm_fails) =
     Json_error ''Assembly failed'' 500 \<and>
   files (snd (finalize_route example_cfg (Some (example_body (Num 2))) example_staged_rm_fails))
     [''app'', ''public'', ''uploads'', ''out.bin''] = Some (File ''AAAABB'')"
  by (simp add: finalize_route_def example_staged_rm_fails_def example_defs path_defs fs_defs
      handler_defs assemble.simps decimal_small)

text \<open>
  C4. The staging directory exists, \<open>totalChunks = n\<close> lies in \<open>[1, 1000]\<close> and some chunk index
  \<open>i\<close> below \<open>n\<close> has no chunk file; the chunk entries before it are not directories. The
  destination root can be made and the destination opened, the destination does not lie
  inside the staging directory, and the two deletion attempts do not both fail. Then,
  with \<open>m\<close> the first index that has no chunk file, in both handlers the loop throws
  \<open>MissingChunk m\<close>, the answer is the generic \<^verbatim>\<open>Assembly failed\<close> with status 500, and the
  staging directory is gone afterwards. The destination file is not rolled back: it is
  left truncated, holding the first \<open>k\<close> chunks whole and nothing else, where \<open>k\<close>, at most
  \<open>m\<close>, is the number of written chunks that had reached the file when the stream was
  destroyed; the chunks still queued then are lost.
\<close>

theorem finalize_missing_chunk:
  fixes cfg :: config and b :: finalize_body and w :: world
  assumes handler: "handler = finalize_route \<or> handler = finalize_part_001"
    and body: "uploadId b = Some u" "fileName b = Some f" "totalChunks b = Num (int n)"
    and range: "1 \<le> n" "n \<le> 1000"
    and tempDir: "tempDir = stagingDir cfg (sanitize_id u)"
    and fp: "fp = join1 (uploadsDir cfg) (basename f)"
    and session: "existsSync (files w) tempDir"
    and lacks: "i < n" "\<not> existsSync (files w) (chunkPath tempDir (decimal i))"
    and chunks: "\<forall>j<i. \<not> is_Dir (files w (chunkPath tempDir (decimal j)))"
    and mkdir: "mkdir_p (files w) (uploadsDir cfg) = Inr fsd"
    and opens: "can_open_w fsd fp"
    and apart: "\<not> prefix tempDir fp"
    and cleanup: "\<not> prefix [True, True] (rm_faults w)"
  shows "\<exists>m k. m \<le> i \<and> k \<le> m \<and> k = min (flushed_before_destroy w) m \<and>
           first_missing_chunk (files w) tempDir n = Some m \<and>
           fst (try_block tempDir (fst (createWriteStream fsd fp)) (totalChunks b)
                 (snd (createWriteStream fsd fp))) = Settled (Inl (MissingChunk m)) \<and>
           fst (handler cfg (Some b) w) = Json_error ''Assembly failed'' 500 \<and>
           \<not> existsSync (files (snd (handler cfg (Some b) w))) tempDir \<and>
           files (snd (handler cfg (Some b) w)) fp =
             Some (File (concat (map (\<lambda>j. file_bytes (files w (chunkPath tempDir (decimal j))))
                                  [0..<k])))"
proof -
  obtain m where m: "m \<le> i" "first_missing_chunk (files w) tempDir n = Some m"
    using first_missing_chunk_exists [OF lacks] by blast
  have "\<forall>j<m. \<not> is_Dir (files w (chunkPath tempDir (decimal j)))"
    using chunks m(1) by simp
  note run = missing_chunk_run [OF body range tempDir fp session m(2) this mkdir opens apart
      cleanup refl handler]
  have thrown: "fst (try_block tempDir (fst (createWriteStream fsd fp)) (totalChunks b)
                 (snd (createWriteStream fsd fp))) = Settled (Inl (MissingChunk m))"
    using run by simp
  have "min (flushed_before_destroy w) m \<le> m"
    by simp
  with run thrown m show ?thesis
    by blast
qed

theorem finalize_missing_chunk_witness:
  "(2::nat) < 3 \<and>
   \<not> existsSync (files example_staged) [''tmp'', ''uploads'', ''abc-1'', ''chunk_2''] \<and>
   flushed_before_destroy example_staged = 1 \<and>
   fst (finalize_route example_cfg (Some (example_body (Num 3))) example_staged) =
     Json_error ''Assembly failed'' 500 \<and>
   \<not> existsSync (files (snd (finalize_route example_cfg (Some (example_body (Num 3))) example_staged)))
       [''tmp'', ''uploads'', ''abc-1''] \<and>
   files (snd (finalize_route example_cfg (Some (example_body (Num 3))) example_staged))
       [''app'', ''public'', ''uploads'', ''out.bin''] = Some (File ''AAAA'') \<and>
   fst (finalize_part_001 example_cfg (Some (example_body (Num 3))) example_staged) =
     Json_error ''Assembly failed'' 500 \<and>
   \<not> existsSync (files (snd (finalize_part_001 example_cfg (Some (example_body (Num 3))) example_staged)))
       [''tmp'', ''uploads'', ''abc-1''] \<and>
   files (snd (finalize_part_001 example_cfg (Some (example_body (Num 3))) example_staged))
       [''app'', ''public'', ''uploads'', ''out.bin''] = Some (File ''AAAA'')"
proof -
  let ?t = "[''tmp'', ''uploads'', ''abc-1'']"
  note t = finalize_missing_chunk [where cfg = example_cfg and b = "example_body (Num 3)"
      and w = example_staged and u = "''abc-1''" and f = "''out.bin''" and n = 3 and i = 2
      and tempDir = ?t
      and fp = "[''app'', ''public'', ''uploads'', ''out.bin'']"
      and fsd = "add_dirs example_staged_fs [''app'', ''public'', ''uploads'']"]
  have first: "first_missing_chunk (files example_staged) ?t 3 = Some 2"
    using example_first_missing by (simp add: example_staged_def)
  have k: "flushed_before_destroy example_staged = 1"
    by (simp add: example_staged_def)
  have hyps: "uploadId (example_body (Num 3)) = Some ''abc-1''"
    "fileName (example_body (Num 3)) = Some ''out.bin''"
    "totalChunks (example_body (Num 3)) = Num (int 3)"
    "(1::nat) \<le> 3" "(3::nat) \<le> 1000"
    "?t = stagingDir example_cfg (sanitize_id ''abc-1'')"
    "[''app'', ''public'', ''uploads'', ''out.bin''] = join1 (uploadsDir example_cfg) (basename ''out.bin'')"
    "existsSync (files example_staged) ?t"
    "(2::nat) < 3"
    "\<not> existsSync (files example_staged) (chunkPath ?t (decimal 2))"
    by (simp_all add: example_defs path_defs existsSync_def decimal_small)
  have chunks: "\<forall>j<2. \<not> is_Dir (files example_staged (chunkPath ?t (decimal j)))"
    by (simp add: example_defs path_defs decimal_small less_Suc_eq numeral_2_eq_2)
  have more: "mkdir_p (files example_staged) (uploadsDir example_cfg) =
        Inr (add_dirs example_staged_fs [''app'', ''public'', ''uploads''])"
    "can_open_w (add_dirs example_staged_fs [''app'', ''public'', ''uploads''])
        [''app'', ''public'', ''uploads'', ''out.bin'']"
    "\<not> prefix ?t [''app'', ''public'', ''uploads'', ''out.bin'']"
    "\<not> prefix [True, True] (rm_faults example_staged)"
    by (simp_all add: example_defs path_defs mkdir_p_def add_dirs_def can_open_w_def)
  have bytes: "concat (map (\<lambda>j. file_bytes (files example_staged (chunkPath ?t (decimal j)))) [0..<1]) =
      ''AAAA''"
    by (simp add: example_defs path_defs decimal_small)
  have c2: "chunkPath ?t (decimal 2) = [''tmp'', ''uploads'', ''abc-1'', ''chunk_2'']"
    by (simp add: path_defs decimal_small)
  have r: "finalize_route = finalize_route \<or> finalize_route = finalize_part_001"
    and p: "finalize_part_001 = finalize_route \<or> finalize_part_001 = finalize_part_001"
    by simp_all
  from t [OF r hyps chunks more] first bytes k
  have R: "fst (finalize_route example_cfg (Some (example_body (Num 3))) example_staged) =
       Json_error ''Assembly failed'' 500 \<and>
     \<not> existsSync (files (snd (finalize_route example_cfg (Some (example_body (Num 3))) example_staged))) ?t \<and>
     files (snd (finalize_route example_cfg (Some (example_body (Num 3))) example_staged))
       [''app'', ''public'', ''uploads'', ''out.bin''] = Some (File ''AAAA'')"
    by auto
  from t [OF p hyps chunks more] first bytes k
  have P: "fst (finalize_part_001 example_cfg (Some (example_body (Num 3))) example_staged) =
       Json_error ''Assembly failed'' 500 \<and>
     \<not> existsSync (files (snd (finalize_part_001 example_cfg (Some (example_body (Num 3))) example_staged))) ?t \<and>
     files (snd (finalize_part_001 example_cfg (Some (example_body (Num 3))) example_staged))
       [''app'', ''public'', ''uploads'', ''out.bin''] = Some (File ''AAAA'')"
    by auto
  show ?thesis
    using R P hyps(9,10) k by (simp add: c2)
qed

text \<open>
  C5, as stated, fails: both handlers make the destination root before they look for
  the staging directory, so a request for a session that does not exist is answered
  \<^verbatim>\<open>Upload session not found\<close> after \<^verbatim>\<open>public/uploads\<close> has been created.
\<close>

theorem session_not_found_creates_destination_root:
  "fst (finalize_route example_cfg (Some (example_body (Num 2))) example_world) =
     Json_error ''Upload session not found'' 404 \<and>
   files example_world [''app'', ''public'', ''uploads''] = None \<and>
   files (snd (finalize_route example_cfg (Some (example_body (Num 2))) example_world))
     [''app'', ''public'', ''uploads''] = Some Dir"
  by (simp add: finalize_route_def example_defs path_defs fs_defs handler_defs)

text \<open>
  C5, amended. \<open>totalChunks\<close> lies in \<open>[1, 1000]\<close>, the session's staging directory does
  not exist (and is not an ancestor of the destination root), and the destination root
  can be made. Then both handlers answer \<^verbatim>\<open>Upload session not found\<close> with status 404,
  and the only effect is that the destination root and its missing ancestors now exist
  as directories: no entry that existed is changed or deleted, no file is created, and
  when the root and its ancestors already exist the world is returned as it was.
\<close>

theorem finalize_session_not_found:
  fixes cfg :: config and b :: finalize_body and w :: world
  defines "dest \<equiv> uploadsDir cfg"
  assumes handler: "handler = finalize_route \<or> handler = finalize_part_001"
    and body: "uploadId b = Some u" "fileName b = Some f" "totalChunks b = Num k"
    and range: "1 \<le> k" "k \<le> 1000"
    and tempDir: "tempDir = stagingDir cfg (sanitize_id u)"
    and absent: "\<not> existsSync (files w) tempDir"
    and mkdir: "mkdir_p (files w) dest = Inr fsd"
    and apart: "\<not> prefix tempDir dest"
  shows "handler cfg (Some b) w =
           (Json_error ''Upload session not found'' 404, w\<lparr>files := add_dirs (files w) dest\<rparr>) \<and>
         (\<forall>q. files w q \<noteq> None \<longrightarrow> files (snd (handler cfg (Some b) w)) q = files w q) \<and>
         (\<forall>q. files (snd (handler cfg (Some b) w)) q \<noteq> files w q \<longrightarrow>
                prefix q dest \<and> files w q = None \<and> files (snd (handler cfg (Some b) w)) q = Some Dir) \<and>
         ((\<forall>q. prefix q dest \<longrightarrow> files w q \<noteq> None) \<longrightarrow> snd (handler cfg (Some b) w) = w)"
proof -
  have fsd: "fsd = add_dirs (files w) dest"
    using mkdir by (rule mkdir_p_Inr)
  have "\<not> existsSync fsd (stagingDir cfg (sanitize_id u))"
    using absent apart tempDir by (simp add: fsd existsSync_def add_dirs_other)
  then have run: "handler cfg (Some b) w =
      (Json_error ''Upload session not found'' 404, w\<lparr>files := add_dirs (files w) dest\<rparr>)"
    using handler body range mkdir
    by (auto simp: finalize_route_def finalize_part_001_def js_gt_def MAX_CHUNKS_def dest_def fsd)
  have same: "add_dirs (files w) dest = files w" if "\<forall>q. prefix q dest \<longrightarrow> files w q \<noteq> None"
    using that by (auto simp: add_dirs_def)
  show ?thesis
    unfolding run using same by (auto simp: add_dirs_def)
qed

theorem finalize_session_not_found_witness:
  "\<not> existsSync (files example_world) [''tmp'', ''uploads'', ''abc-1''] \<and>
   finalize_route example_cfg (Some (example_body (Num 2))) example_world =
     (Json_error ''Upload session not found'' 404,
      example_world\<lparr>files := add_dirs example_fs [''app'', ''public'', ''uploads'']\<rparr>) \<and>
   finalize_part_001 example_cfg (Some (example_body (Num 2))) example_world =
     (Json_error ''Upload session not found'' 404,
      example_world\<lparr>files := add_dirs example_fs [''app'', ''public'', ''uploads'']\<rparr>)"
proof -
  note t = finalize_session_not_found [where cfg = example_cfg and b = "example_body (Num 2)"
      and w = example_world and u = "''abc-1''" and f = "''out.bin''" and k = 2
      and tempDir = "[''tmp'', ''uploads'', ''abc-1'']"
      and fsd = "add_dirs example_fs [''app'', ''public'', ''uploads'']"]
  have hyps: "uploadId (example_body (Num 2)) = Some ''abc-1''"
    "fileName (example_body (Num 2)) = Some ''out.bin''"
    "totalChunks (example_body (Num 2)) = Num 2"
    "(1::int) \<le> 2" "(2::int) \<le> 1000"
    "[''tmp'', ''uploads'', ''abc-1''] = stagingDir example_cfg (sanitize_id ''abc-1'')"
    "\<not> existsSync (files example_world) [''tmp'', ''uploads'', ''abc-1'']"
    "mkdir_p (files example_world) (uploadsDir example_cfg) =
        Inr (add_dirs example_fs [''app'', ''public'', ''uploads''])"
    "\<not> prefix [''tmp'', ''uploads'', ''abc-1''] (uploadsDir example_cfg)"
    by (simp_all add: example_defs path_defs existsSync_def mkdir_p_def)
  have r: "finalize_route = finalize_route \<or> finalize_route = finalize_part_001"
    and p: "finalize_part_001 = finalize_route \<or> finalize_part_001 = finalize_part_001"
    by simp_all
  have d: "uploadsDir example_cfg = [''app'', ''public'', ''uploads'']"
    "files example_world = example_fs"
    by (simp_all add: example_defs path_defs)
  show ?thesis
    using t [OF r hyps, THEN conjunct1] t [OF p hyps, THEN conjunct1] hyps(7)
    by (simp add: d)
qed

text \<open>
  C6. Whatever the request and the world, a path that holds file contents after finalize
  which it did not hold before is the destination root followed by one segment, the
  \<^verbatim>\<open>basename\<close> of the destination name: a path strictly inside the root, whose last
  segment has no slash and is none of the empty name, \<^verbatim>\<open>.\<close> and \<^verbatim>\<open>..\<close>. No file outside
  the destination root is created or rewritten.
\<close>

theorem finalize_writes_inside_destination_root:
  assumes "handler = finalize_route \<or> handler = finalize_part_001"
    and "files (snd (handler cfg body w)) q = Some (File d)"
    and "files w q \<noteq> Some (File d)"
  shows "\<exists>b f. body = Some b \<and> fileName b = Some f \<and>
           q = uploadsDir cfg @ [basename f] \<and> strict_prefix (uploadsDir cfg) q \<and>
           CHR ''/'' \<notin> set (basename f) \<and>
           basename f \<noteq> [] \<and> basename f \<noteq> ''.'' \<and> basename f \<noteq> ''..''"
proof -
  from finalize_files_cases [OF assms(1), of cfg body w q] assms(2,3)
  obtain b f fsd where *: "body = Some b" "fileName b = Some f"
    "mkdir_p (files w) (uploadsDir cfg) = Inr fsd"
    "can_open_w fsd (join1 (uploadsDir cfg) (basename f))"
    "q = join1 (uploadsDir cfg) (basename f)"
    by auto
  note o = open_under_made_root [OF *(3,4)]
  show ?thesis
    using * o basename_no_slash [of f] by (auto simp: strict_prefix_def)
qed


theorem finalize_writes_inside_destination_root_witness:
  "files (snd (finalize_route example_cfg (Some example_traversal_body) example_traversal_world))
     [''app'', ''public'', ''uploads'', ''passwd''] = Some (File ''root'') \<and>
   files (snd (finalize_part_001 example_cfg (Some example_traversal_body) example_traversal_world))
     [''app'', ''public'', ''uploads'', ''passwd''] = Some (File ''root'') \<and>
   files example_traversal_world [''app'', ''public'', ''uploads'', ''passwd''] = None \<and>
   (\<exists>b f. Some example_traversal_body = Some b \<and> fileName b = Some f \<and>
      [''app'', ''public'', ''uploads'', ''passwd''] = uploadsDir example_cfg @ [basename f] \<and>
      strict_prefix (uploadsDir example_cfg) [''app'', ''public'', ''uploads'', ''passwd''] \<and>
      CHR ''/'' \<notin> set (basename f) \<and>
      basename f \<noteq> [] \<and> basename f \<noteq> ''.'' \<and> basename f \<noteq> ''..'')"
proof -
  have r: "files (snd (finalize_route example_cfg (Some example_traversal_body) example_traversal_world))
     [''app'', ''public'', ''uploads'', ''passwd''] = Some (File ''root'')"
    by (simp add: finalize_route_def example_traversal_world_def example_traversal_body_def
        example_defs path_defs fs_defs handler_defs assemble.simps decimal_small)
  have p: "files (snd (finalize_part_001 example_cfg (Some example_traversal_body) example_traversal_world))
     [''app'', ''public'', ''uploads'', ''passwd''] = Some (File ''root'')"
    by (simp add: finalize_part_001_def example_traversal_world_def example_traversal_body_def
        example_defs path_defs fs_defs handler_defs assemble.simps decimal_small)
  have n: "files example_traversal_world [''app'', ''public'', ''uploads'', ''passwd''] = None"
    by (simp add: example_traversal_world_def example_defs)
  have h: "finalize_route = finalize_route \<or> finalize_route = finalize_part_001"
    by simp
  have n': "files example_traversal_world [''app'', ''public'', ''uploads'', ''passwd''] \<noteq>
      Some (File ''root'')"
    using n by simp
  show ?thesis
    using finalize_writes_inside_destination_root [OF h r n'] r p n by blast
qed

text \<open>
  C7. For every integer \<open>totalChunks\<close> below 1 or above \<open>MAX_CHUNKS = 1000\<close>, both finalize
  handlers answer \<^verbatim>\<open>Invalid totalChunks\<close> with status 400 and return the world they were
  given: nothing is created, written or deleted, so a staging directory that exists
  stays as it is.
\<close>

theorem finalize_invalid_chunk_count:
  "totalChunks b = Num k \<Longrightarrow> k < 1 \<or> 1000 < k \<Longrightarrow>
     finalize_route cfg (Some b) w = (Json_error ''Invalid totalChunks'' 400, w) \<and>
     finalize_part_001 cfg (Some b) w = (Json_error ''Invalid totalChunks'' 400, w)"
  by (auto simp: finalize_route_def finalize_part_001_def js_gt_def MAX_CHUNKS_def)

theorem finalize_invalid_chunk_count_witness:
  "totalChunks (example_body (Num 0)) = Num 0 \<and> (0::int) < 1 \<and>
   finalize_route example_cfg (Some (example_body (Num 0))) example_staged =
     (Json_error ''Invalid totalChunks'' 400, example_staged) \<and>
   finalize_part_001 example_cfg (Some (example_body (Num 0))) example_staged =
     (Json_error ''Invalid totalChunks'' 400, example_staged) \<and>
   totalChunks (example_body (Num 1001)) = Num 1001 \<and> (1000::int) < 1001 \<and>
   finalize_route example_cfg (Some (example_body (Num 1001))) example_staged =
     (Json_error ''Invalid totalChunks'' 400, example_staged) \<and>
   finalize_part_001 example_cfg (Some (example_body (Num 1001))) example_staged =
     (Json_error ''Invalid totalChunks'' 400, example_staged)"
  using finalize_invalid_chunk_count [of "example_body (Num 0)" 0 example_cfg example_staged]
    finalize_invalid_chunk_count [of "example_body (Num 1001)" 1001 example_cfg example_staged]
  by (simp add: example_body_def)

text \<open>
  C8, as stated, fails: a file field of zero bytes is a \<^verbatim>\<open>File\<close> object, which is truthy,
  so the receiver accepts it and writes an empty chunk file.
\<close>

theorem receive_accepts_empty_payload:
  "fst (upload_chunk_POST example_cfg (Some (example_form (Blob []) ''0'' ''abc-1'')) example_world) =
     Json_success \<and>
   files example_world [''tmp'', ''uploads'', ''abc-1'', ''chunk_0''] = None \<and>
   files (snd (upload_chunk_POST example_cfg (Some (example_form (Blob []) ''0'' ''abc-1''))
                 example_world)) [''tmp'', ''uploads'', ''abc-1'', ''chunk_0''] = Some (File [])"
  by (simp add: upload_chunk_POST_def example_form_def example_defs path_defs fs_defs)

text \<open>
  C8, amended. The checks of the receiver come before any write. A missing or empty
  field (the payload absent, or the chunk index or the upload id absent or empty) gives
  \<^verbatim>\<open>Missing fields\<close>; otherwise an upload id with a character outside the class gives
  \<^verbatim>\<open>Invalid uploadId\<close>; otherwise a chunk index that is not digits only gives
  \<^verbatim>\<open>Invalid chunkIndex\<close>; every answer with status 400 leaves the world as it was. A file
  payload of zero bytes is not rejected: with valid fields it is stored as an empty chunk.
\<close>

theorem receive_checks_precede_writes:
  "(falsy (form_file r) \<or> falsy (form_chunkIndex r) \<or> falsy (form_uploadId r) \<longrightarrow>
      upload_chunk_POST cfg (Some r) w = (Json_error ''Missing fields'' 400, w)) \<and>
   (\<not> falsy (form_file r) \<and> \<not> falsy (form_chunkIndex r) \<and> form_uploadId r = Text u \<and>
    u \<noteq> [] \<and> \<not> list_all id_char u \<longrightarrow>
      upload_chunk_POST cfg (Some r) w = (Json_error ''Invalid uploadId'' 400, w)) \<and>
   (\<not> falsy (form_file r) \<and> form_uploadId r = Text u \<and> u \<noteq> [] \<and> list_all id_char u \<and>
    form_chunkIndex r = Text c \<and> c \<noteq> [] \<and> \<not> list_all digit_char c \<longrightarrow>
      upload_chunk_POST cfg (Some r) w = (Json_error ''Invalid chunkIndex'' 400, w)) \<and>
   (fst (upload_chunk_POST cfg form w) = Json_error msg 400 \<longrightarrow>
      snd (upload_chunk_POST cfg form w) = w) \<and>
   (form_file r = Blob [] \<and> form_uploadId r = Text u \<and> u \<noteq> [] \<and> list_all id_char u \<and>
    form_chunkIndex r = Text c \<and> c \<noteq> [] \<and> list_all digit_char c \<and>
    mkdir_p (files w) (stagingDir cfg u) = Inr fsd \<and>
    can_open_w fsd (chunkPath (stagingDir cfg u) c) \<longrightarrow>
      upload_chunk_POST cfg (Some r) w =
        (Json_success, w\<lparr>files := fsd(chunkPath (stagingDir cfg u) c \<mapsto> File [])\<rparr>))"
proof (intro conjI impI)
  assume "falsy (form_file r) \<or> falsy (form_chunkIndex r) \<or> falsy (form_uploadId r)"
  then show "upload_chunk_POST cfg (Some r) w = (Json_error ''Missing fields'' 400, w)"
    by (simp add: upload_chunk_POST_def)
next
  assume "\<not> falsy (form_file r) \<and> \<not> falsy (form_chunkIndex r) \<and> form_uploadId r = Text u \<and>
    u \<noteq> [] \<and> \<not> list_all id_char u"
  then show "upload_chunk_POST cfg (Some r) w = (Json_error ''Invalid uploadId'' 400, w)"
    by (simp add: upload_chunk_POST_def sanitize_id_eq_iff)
next
  assume a: "\<not> falsy (form_file r) \<and> form_uploadId r = Text u \<and> u \<noteq> [] \<and> list_all id_char u \<and>
    form_chunkIndex r = Text c \<and> c \<noteq> [] \<and> \<not> list_all digit_char c"
  then have "sanitize_id u = u" "sanitize_index c \<noteq> c"
    by (simp_all add: sanitize_id_eq_iff sanitize_index_eq_iff)
  with a show "upload_chunk_POST cfg (Some r) w = (Json_error ''Invalid chunkIndex'' 400, w)"
    by (simp add: upload_chunk_POST_def)
next
  assume "fst (upload_chunk_POST cfg form w) = Json_error msg 400"
  then show "snd (upload_chunk_POST cfg form w) = w"
    by (rule upload_chunk_400_no_write)
next
  assume "form_file r = Blob [] \<and> form_uploadId r = Text u \<and> u \<noteq> [] \<and> list_all id_char u \<and>
    form_chunkIndex r = Text c \<and> c \<noteq> [] \<and> list_all digit_char c \<and>
    mkdir_p (files w) (stagingDir cfg u) = Inr fsd \<and>
    can_open_w fsd (chunkPath (stagingDir cfg u) c)"
  then show "upload_chunk_POST cfg (Some r) w =
        (Json_success, w\<lparr>files := fsd(chunkPath (stagingDir cfg u) c \<mapsto> File [])\<rparr>)"
    by (simp add: upload_chunk_accepts)
qed

theorem receive_checks_precede_writes_witness:
  "falsy (form_file (example_form Absent ''0'' ''abc-1'')) \<and>
   upload_chunk_POST example_cfg (Some (example_form Absent ''0'' ''abc-1'')) example_world =
     (Json_error ''Missing fields'' 400, example_world) \<and>
   \<not> list_all id_char ''a/b'' \<and>
   upload_chunk_POST example_cfg (Some (example_form (Blob ''AAAA'') ''0'' ''a/b'')) example_world =
     (Json_error ''Invalid uploadId'' 400, example_world) \<and>
   \<not> list_all digit_char ''1x'' \<and>
   upload_chunk_POST example_cfg (Some (example_form (Blob ''AAAA'') ''1x'' ''abc-1'')) example_world =
     (Json_error ''Invalid chunkIndex'' 400, example_world) \<and>
   fst (upload_chunk_POST example_cfg (Some (example_form (Blob []) ''0'' ''abc-1'')) example_world) =
     Json_success"
  using receive_checks_precede_writes [where r = "example_form Absent ''0'' ''abc-1''"
      and cfg = example_cfg and w = example_world]
    receive_checks_precede_writes [where r = "example_form (Blob ''AAAA'') ''0'' ''a/b''"
      and u = "''a/b''" and cfg = example_cfg and w = example_world]
    receive_checks_precede_writes [where r = "example_form (Blob ''AAAA'') ''1x'' ''abc-1''"
      and u = "''abc-1''" and c = "''1x''" and cfg = example_cfg and w = example_world]
    receive_checks_precede_writes [where r = "example_form (Blob []) ''0'' ''abc-1''"
      and u = "''abc-1''" and c = "''0''" and cfg = example_cfg and w = example_world
      and fsd = "add_dirs example_fs [''tmp'', ''uploads'', ''abc-1'']"]
  by (simp add: example_form_def id_char_def digit_char_def example_defs stagingDir_def
      chunkPath_def join1_def mkdir_p_def add_dirs_def can_open_w_def)

text \<open>
  C9. The two finalize handlers are not equivalent under a failing deletion: on the same
  request and the same world, with the first \<^verbatim>\<open>rm\<close> failing, part_001 reports success and
  route.ts does not.
\<close>

theorem finalize_handlers_differ_on_cleanup_failure:
  "fst (finalize_part_001 example_cfg (Some (example_body (Num 2))) example_staged_rm_fails) =
     Json_success_path ''/uploads/out.bin'' \<and>
   fst (finalize_route example_cfg (Some (example_body (Num 2))) example_staged_rm_fails) \<noteq>
   fst (finalize_part_001 example_cfg (Some (example_body (Num 2))) example_staged_rm_fails)"
  by (simp add: finalize_route_def finalize_part_001_def example_staged_rm_fails_def example_defs
      path_defs fs_defs handler_defs assemble.simps decimal_small)

text \<open>
  C10. The range check rejects exactly the counts whose comparison with a bound succeeds:
  a handler answers \<^verbatim>\<open>Invalid totalChunks\<close> if and only if \<open>totalChunks\<close> compares as an
  integer above 1000 or below 1. When \<open>totalChunks\<close> compares as NaN (the field is absent,
  or its value has no numeric reading), both comparisons are false and the loop returns at once with
  nothing written to the stream; so with the session's staging directory present, the
  destination root makeable, the destination openable and outside the staging directory,
  and the deletion not failing, both handlers report success, the destination is an
  empty file whatever it held before, and the staging directory is gone.
\<close>

theorem finalize_not_a_number:
  fixes cfg :: config and b :: finalize_body and w :: world
  defines "dest \<equiv> uploadsDir cfg"
  assumes handler: "handler = finalize_route \<or> handler = finalize_part_001"
    and body: "uploadId b = Some u" "fileName b = Some f" "totalChunks b = NaN"
    and tempDir: "tempDir = stagingDir cfg (sanitize_id u)"
    and fp: "fp = join1 dest (basename f)"
    and session: "existsSync (files w) tempDir"
    and mkdir: "mkdir_p (files w) dest = Inr fsd"
    and opens: "can_open_w fsd fp"
    and apart: "\<not> prefix tempDir fp"
    and cleanup: "\<not> prefix [True] (rm_faults w)"
  shows "(fst (handler cfg (Some c) v) = Json_error ''Invalid totalChunks'' 400 \<longleftrightarrow>
           (\<exists>k. totalChunks c = Num k \<and> (1000 < k \<or> k < 1))) \<and>
         \<not> js_gt (totalChunks b) MAX_CHUNKS \<and> \<not> js_lt (totalChunks b) (Num 1) \<and>
         assemble tempDir ws (totalChunks b) 0 fs = (Inr (), ws) \<and>
         fst (handler cfg (Some b) w) = Json_success_path (''/uploads/'' @ basename f) \<and>
         files (snd (handler cfg (Some b) w)) = remove_tree (fsd(fp \<mapsto> File [])) tempDir \<and>
         files (snd (handler cfg (Some b) w)) fp = Some (File []) \<and>
         \<not> existsSync (files (snd (handler cfg (Some b) w))) tempDir"
proof -
  have fsd: "fsd = add_dirs (files w) dest"
    using mkdir by (rule mkdir_p_Inr)
  have ex: "existsSync fsd (stagingDir cfg (sanitize_id u))"
    using session tempDir by (simp add: fsd existsSync_def add_dirs_not_None)
  have valid: "\<not> js_gt (totalChunks b) MAX_CHUNKS" "\<not> js_lt (totalChunks b) (Num 1)"
    using body(3) by (simp_all add: js_gt_def MAX_CHUNKS_def)
  have tb: "try_block tempDir (fst (createWriteStream fsd fp)) (totalChunks b)
              (snd (createWriteStream fsd fp)) =
            (Settled (Inr ()), fsd(fp \<mapsto> File []),
             \<lparr>ws_path = fp, ws_ok = True, ws_queue = []\<rparr>)"
    using opens body(3) by (simp add: try_block_NaN)
  have "finalize_part_001 cfg (Some b) w =
      (Json_success_path (''/uploads/'' @ basename f),
       snd (rm_rf tempDir (w\<lparr>files := fsd(fp \<mapsto> File [])\<rparr>)))"
    using finalize_part_001_run [OF valid body(1,2) mkdir [unfolded dest_def] ex] tb tempDir fp
    by (simp add: dest_def ws_destroy_empty)
  moreover have "finalize_route cfg (Some b) w = finalize_part_001 cfg (Some b) w"
    using cleanup by (rule finalize_route_eq_part_001)
  ultimately have run: "handler cfg (Some b) w =
      (Json_success_path (''/uploads/'' @ basename f),
       snd (rm_rf tempDir (w\<lparr>files := fsd(fp \<mapsto> File [])\<rparr>)))"
    using handler by auto
  have files: "files (snd (handler cfg (Some b) w)) = remove_tree (fsd(fp \<mapsto> File [])) tempDir"
    using cleanup by (simp add: run rm_rf_ok)
  show ?thesis
    using invalid_totalChunks_iff [OF handler, of cfg c v] valid body(3) apart files run
    by (simp add: assemble_NaN remove_tree_def existsSync_def)
qed

theorem finalize_not_a_number_witness:
  "totalChunks (example_body NaN) = NaN \<and>
   existsSync (files example_staged) [''tmp'', ''uploads'', ''abc-1''] \<and>
   fst (finalize_route example_cfg (Some (example_body NaN)) example_staged) =
     Json_success_path ''/uploads/out.bin'' \<and>
   files (snd (finalize_route example_cfg (Some (example_body NaN)) example_staged))
     [''app'', ''public'', ''uploads'', ''out.bin''] = Some (File []) \<and>
   \<not> existsSync (files (snd (finalize_route example_cfg (Some (example_body NaN)) example_staged)))
     [''tmp'', ''uploads'', ''abc-1''] \<and>
   fst (finalize_part_001 example_cfg (Some (example_body NaN)) example_staged) =
     Json_success_path ''/uploads/out.bin'' \<and>
   files (snd (finalize_part_001 example_cfg (Some (example_body NaN)) example_staged))
     [''app'', ''public'', ''uploads'', ''out.bin''] = Some (File []) \<and>
   \<not> existsSync (files (snd (finalize_part_001 example_cfg (Some (example_body NaN)) example_staged)))
     [''tmp'', ''uploads'', ''abc-1'']"
proof -
  note t = finalize_not_a_number [where cfg = example_cfg and b = "example_body NaN"
      and w = example_staged and u = "''abc-1''" and f = "''out.bin''"
      and tempDir = "[''tmp'', ''uploads'', ''abc-1'']"
      and fp = "[''app'', ''public'', ''uploads'', ''out.bin'']"
      and fsd = "add_dirs example_staged_fs [''app'', ''public'', ''uploads'']"]
  have hyps: "uploadId (example_body NaN) = Some ''abc-1''"
    "fileName (example_body NaN) = Some ''out.bin''"
    "totalChunks (example_body NaN) = NaN"
    "[''tmp'', ''uploads'', ''abc-1''] = stagingDir example_cfg (sanitize_id ''abc-1'')"
    "[''app'', ''public'', ''uploads'', ''out.bin''] = join1 (uploadsDir example_cfg) (basename ''out.bin'')"
    "existsSync (files example_staged) [''tmp'', ''uploads'', ''abc-1'']"
    "mkdir_p (files example_staged) (uploadsDir example_cfg) =
        Inr (add_dirs example_staged_fs [''app'', ''public'', ''uploads''])"
    "can_open_w (add_dirs example_staged_fs [''app'', ''public'', ''uploads''])
        [''app'', ''public'', ''uploads'', ''out.bin'']"
    "\<not> prefix [''tmp'', ''uploads'', ''abc-1''] [''app'', ''public'', ''uploads'', ''out.bin'']"
    "\<not> prefix [True] (rm_faults example_staged)"
    by (simp_all add: example_defs path_defs existsSync_def mkdir_p_def add_dirs_def can_open_w_def)
  have r: "finalize_route = finalize_route \<or> finalize_route = finalize_part_001"
    and p: "finalize_part_001 = finalize_route \<or> finalize_part_001 = finalize_part_001"
    by simp_all
  show ?thesis
    using t [OF r hyps] t [OF p hyps] hyps(3,6)
    by (simp add: basename_def existsSync_def remove_tree_def)
qed

end
